theory Spec2Isabelle
  imports Complex_Main "HOL-Library.Log_Nat" "HOL-Library.Word"
begin

section \<open>Python values and arithmetic\<close>

text \<open>
  The speech coach is a Python program.  Its integers are unbounded (\<open>int\<close>), its
  scalar floats are IEEE binary64 numbers.  A finite binary64 number is a rational, so a
  float is modelled as a \<open>rat\<close> and every float operation as the exact operation followed
  by rounding to the nearest binary64 number, ties to even (\<open>fl\<close>).  The exponent range
  is not modelled: no quantity of this program comes near the overflow or the
  subnormal range.
\<close>

definition py_int :: "rat \<Rightarrow> int" where
  \<comment> \<open>\<open>int(x)\<close> on a float: truncation toward zero.\<close>
  "py_int x = (if 0 \<le> x then \<lfloor>x\<rfloor> else \<lceil>x\<rceil>)"

definition round_half_even :: "rat \<Rightarrow> int" where
  "round_half_even x =
     (let n = \<lfloor>x\<rfloor>; d = x - of_int n
      in if d < 1 / 2 then n else if 1 / 2 < d then n + 1 else if even n then n else n + 1)"

definition binade :: "rat \<Rightarrow> int" where
  \<comment> \<open>For \<open>0 < x\<close>: the exponent \<open>e\<close> with \<open>2 powi e \<le> x < 2 powi (e + 1)\<close>.\<close>
  "binade x = (if 1 \<le> x then bitlen \<lfloor>x\<rfloor> - 1 else - bitlen (\<lceil>1 / x\<rceil> - 1))"

definition fl :: "rat \<Rightarrow> rat" where
  \<comment> \<open>Rounding to 53 significant bits, nearest, ties to even.\<close>
  "fl x =
     (if x = 0 then 0
      else let a = \<bar>x\<bar>; q = 2 powi (binade a - 52)
           in sgn x * of_int (round_half_even (a / q)) * q)"

definition py_slice_to :: "'a list \<Rightarrow> int \<Rightarrow> 'a list" where
  \<comment> \<open>\<open>xs[:n]\<close>; a negative bound counts from the end.\<close>
  "py_slice_to xs n =
     (if 0 \<le> n then take (nat n) xs else take (nat (int (length xs) + n)) xs)"

definition py_slice_from :: "'a list \<Rightarrow> int \<Rightarrow> 'a list" where
  \<comment> \<open>\<open>xs[n:]\<close>; a negative bound counts from the end.\<close>
  "py_slice_from xs n =
     (if 0 \<le> n then drop (nat n) xs else drop (nat (int (length xs) + n)) xs)"


section \<open>Audio manager (\<open>audio_manager.py\<close>)\<close>

type_synonym sample = "16 word"

record audio_settings =
  sample_rate :: int
  analysis_chunk_duration :: rat
  overlap_duration :: rat

text \<open>
  The state touched by the capture callback and by the processing thread: the shared
  buffer, the thread's local \<open>last_emit_time\<close>, and the chunks sent so far through the
  signal \<open>audio_data_ready\<close> (oldest first).
\<close>

record manager =
  audio_buffer :: "sample list"
  last_emit_time :: rat
  emitted :: "sample list list"

definition audio_callback :: "manager \<Rightarrow> sample list \<Rightarrow> manager" where
  "audio_callback m audio_data = m\<lparr>audio_buffer := audio_buffer m @ audio_data\<rparr>"

definition analysis_chunk_samples :: "audio_settings \<Rightarrow> int" where
  "analysis_chunk_samples cfg =
     py_int (fl (analysis_chunk_duration cfg * of_int (sample_rate cfg)))"

definition overlap_samples :: "audio_settings \<Rightarrow> int" where
  "overlap_samples cfg = py_int (fl (overlap_duration cfg * of_int (sample_rate cfg)))"

definition step_samples :: "audio_settings \<Rightarrow> int" where
  "step_samples cfg = analysis_chunk_samples cfg - overlap_samples cfg"

text \<open>
  One pass through the body of the \<open>while\<close> loop of \<open>_process_audio_buffer\<close>.  The
  length is read under the lock, the lock is released, and it is taken again for the
  slice; \<open>arrived\<close> are the samples the capture callback appended in between (often
  none).  \<open>current_time\<close> is the reading of \<open>time.time()\<close>.  The result is the local
  \<open>chunk\<close> (if one was sliced) and the new state.
\<close>

definition loop_body ::
  "int \<Rightarrow> int \<Rightarrow> sample list \<Rightarrow> rat \<Rightarrow> manager \<Rightarrow> sample list option \<times> manager" where
  "loop_body n_chunk n_step arrived current_time m =
     (let buffer_length = int (length (audio_buffer m));
          buf = audio_buffer m @ arrived
      in if buffer_length \<ge> n_chunk then
           let chunk = py_slice_to buf n_chunk;
               m1 = m\<lparr>audio_buffer := py_slice_from buf n_step\<rparr>
           in if fl (current_time - last_emit_time m1) \<ge> fl (1 / 10)
              then (Some chunk,
                    m1\<lparr>emitted := emitted m1 @ [chunk], last_emit_time := current_time\<rparr>)
              else (Some chunk, m1)
         else (None, m\<lparr>audio_buffer := buf\<rparr>))"

text \<open>
  The loop runs while \<open>is_recording\<close> holds, interleaved with the capture callback.  A
  run is the finite schedule of what happened until \<open>stop_recording\<close>: callbacks and
  passes through the loop body, in order.  \<open>run_loop\<close> returns every chunk sliced
  (emitted or not), oldest first, and the final state.
\<close>

datatype event = Callback "sample list" | Pass "sample list" rat

fun run_loop ::
  "int \<Rightarrow> int \<Rightarrow> event list \<Rightarrow> manager \<Rightarrow> sample list list \<times> manager" where
  "run_loop n_chunk n_step [] m = ([], m)"
| "run_loop n_chunk n_step (Callback d # es) m =
     run_loop n_chunk n_step es (audio_callback m d)"
| "run_loop n_chunk n_step (Pass arrived t # es) m =
     (case loop_body n_chunk n_step arrived t m of
        (c, m1) \<Rightarrow>
          (case run_loop n_chunk n_step es m1 of
             (cs, m2) \<Rightarrow> ((case c of None \<Rightarrow> cs | Some ch \<Rightarrow> ch # cs), m2)))"

definition process_audio_buffer ::
  "audio_settings \<Rightarrow> event list \<Rightarrow> manager \<Rightarrow> sample list list \<times> manager" where
  "process_audio_buffer cfg es m =
     run_loop (analysis_chunk_samples cfg) (step_samples cfg) es (m\<lparr>last_emit_time := 0\<rparr>)"

fun delivered :: "event list \<Rightarrow> sample list" where
  "delivered [] = []"
| "delivered (Callback d # es) = d @ delivered es"
| "delivered (Pass arrived t # es) = arrived @ delivered es"


section \<open>Speech analyzer (\<open>speech_analyzer.py\<close>)\<close>

subsection \<open>Float operations and strings\<close>

definition float_of_int :: "int \<Rightarrow> rat" where
  "float_of_int n = fl (of_int n)"

definition fadd :: "rat \<Rightarrow> rat \<Rightarrow> rat" where
  "fadd x y = fl (x + y)"

definition fsub :: "rat \<Rightarrow> rat \<Rightarrow> rat" where
  "fsub x y = fl (x - y)"

definition fmul :: "rat \<Rightarrow> rat \<Rightarrow> rat" where
  "fmul x y = fl (x * y)"

definition fdiv :: "rat \<Rightarrow> rat \<Rightarrow> rat option" where
  \<comment> \<open>Python raises \<open>ZeroDivisionError\<close> on a zero divisor.\<close>
  "fdiv x y = (if y = 0 then None else Some (fl (x / y)))"

text \<open>
  A Python \<open>str\<close> is modelled as a HOL string whose characters are read as the code
  points U+0000 to U+00FF.  On these, \<open>\w\<close>, \<open>str.lower\<close> and \<open>str.isspace\<close> are as
  follows.
\<close>

definition is_word_char :: "char \<Rightarrow> bool" where
  "is_word_char c =
     (let n = (of_char c :: nat)
      in (48 \<le> n \<and> n \<le> 57) \<or> (65 \<le> n \<and> n \<le> 90) \<or> n = 95 \<or> (97 \<le> n \<and> n \<le> 122)
         \<or> n = 170 \<or> n = 178 \<or> n = 179 \<or> n = 181 \<or> n = 185 \<or> n = 186
         \<or> (188 \<le> n \<and> n \<le> 190) \<or> (192 \<le> n \<and> n \<le> 214) \<or> (216 \<le> n \<and> n \<le> 246)
         \<or> 248 \<le> n)"

definition py_lower_char :: "char \<Rightarrow> char" where
  "py_lower_char c =
     (let n = (of_char c :: nat)
      in if (65 \<le> n \<and> n \<le> 90) \<or> (192 \<le> n \<and> n \<le> 214) \<or> (216 \<le> n \<and> n \<le> 222)
         then char_of (n + 32) else c)"

definition py_lower :: "string \<Rightarrow> string" where
  "py_lower s = map py_lower_char s"

definition is_space_char :: "char \<Rightarrow> bool" where
  "is_space_char c =
     (let n = (of_char c :: nat)
      in (9 \<le> n \<and> n \<le> 13) \<or> (28 \<le> n \<and> n \<le> 32) \<or> n = 133 \<or> n = 160)"

definition py_strip :: "string \<Rightarrow> string" where
  "py_strip s = rev (dropWhile is_space_char (rev (dropWhile is_space_char s)))"

fun split_lines :: "string \<Rightarrow> string list" where
  \<comment> \<open>\<open>s.split('\n')\<close>\<close>
  "split_lines [] = [[]]"
| "split_lines (c # cs) =
     (if c = CHR 0x0A then [] # split_lines cs
      else (case split_lines cs of l # ls \<Rightarrow> (c # l) # ls | [] \<Rightarrow> [[c]]))"

definition startswith :: "string \<Rightarrow> string \<Rightarrow> bool" where
  "startswith s p = (take (length p) s = p)"

text \<open>
  \<open>re.findall(r'\b\w+\b', s)\<close>: the scan takes, from the left, every maximal run of
  word characters.
\<close>

function find_words :: "string \<Rightarrow> string list" where
  "find_words [] = []"
| "find_words (c # cs) =
     (if is_word_char c
      then (c # takeWhile is_word_char cs) # find_words (dropWhile is_word_char cs)
      else find_words cs)"
  by pat_completeness auto
termination
  by (relation "measure length") (auto simp: length_dropWhile_le less_Suc_eq_le)

text \<open>A string that is one token of the word scan: a non-empty run of word characters.\<close>

definition is_single_word :: "string \<Rightarrow> bool" where
  "is_single_word e = (e \<noteq> [] \<and> list_all is_word_char e)"

subsection \<open>Configuration\<close>

record thresholds =
  pitch_variance_good :: "rat \<times> rat"
  speaking_rate_good :: "rat \<times> rat"
  volume_consistency_good :: rat
  filler_words_threshold :: rat

record analyzer =
  whisper_model_path :: "string option"
  whisper_cli_path :: "string option"
  thresholds :: thresholds
  filler_words :: "string list"

definition default_thresholds :: thresholds where
  "default_thresholds =
     \<lparr>pitch_variance_good = (50, 150), speaking_rate_good = (150, 200),
      volume_consistency_good = fl (4 / 5), filler_words_threshold = fl (1 / 20)\<rparr>"

definition default_filler_words :: "string list" where
  "default_filler_words =
     [''um'', ''uh'', ''er'', ''ah'', ''like'', ''you know'', ''so'', ''well'',
      ''actually'', ''basically'', ''literally'', ''seriously'', ''totally'']"

definition init_analyzer :: "string option \<Rightarrow> string option \<Rightarrow> analyzer" where
  \<comment> \<open>\<open>__init__\<close>; the two paths are what \<open>initialize_whisper\<close> found on disk.\<close>
  "init_analyzer model cli =
     \<lparr>whisper_model_path = model, whisper_cli_path = cli,
      thresholds = default_thresholds, filler_words = default_filler_words\<rparr>"

text \<open>
  The dictionary passed to \<open>update_settings\<close>.  Only the keys \<open>thresholds\<close> and
  \<open>filler_words\<close> are read; of the others, the settings page sends \<open>weights\<close> (tone,
  clarity, volume, fluency).  The value under \<open>thresholds\<close> is itself a dictionary,
  merged by \<open>dict.update\<close>.
\<close>

record thresholds_update =
  pitch_variance_good_upd :: "(rat \<times> rat) option"
  speaking_rate_good_upd :: "(rat \<times> rat) option"
  volume_consistency_good_upd :: "rat option"
  filler_words_threshold_upd :: "rat option"

record settings =
  thresholds_entry :: "thresholds_update option"
  filler_words_entry :: "string list option"
  weights_entry :: "(rat \<times> rat \<times> rat \<times> rat) option"

datatype log_record = Log_info string | Log_warning string | Log_error string

definition dict_update :: "thresholds \<Rightarrow> thresholds_update \<Rightarrow> thresholds" where
  "dict_update th u =
     \<lparr>pitch_variance_good =
        (case pitch_variance_good_upd u of None \<Rightarrow> pitch_variance_good th | Some v \<Rightarrow> v),
      speaking_rate_good =
        (case speaking_rate_good_upd u of None \<Rightarrow> speaking_rate_good th | Some v \<Rightarrow> v),
      volume_consistency_good =
        (case volume_consistency_good_upd u of
           None \<Rightarrow> volume_consistency_good th | Some v \<Rightarrow> v),
      filler_words_threshold =
        (case filler_words_threshold_upd u of
           None \<Rightarrow> filler_words_threshold th | Some v \<Rightarrow> v)\<rparr>"

definition update_settings :: "analyzer \<Rightarrow> settings \<Rightarrow> analyzer \<times> log_record list" where
  \<comment> \<open>Returns the updated analyzer and what the call wrote to the log.\<close>
  "update_settings a s =
     (let a1 = (case thresholds_entry s of
                  None \<Rightarrow> a
                | Some u \<Rightarrow> a\<lparr>thresholds := dict_update (thresholds a) u\<rparr>);
          a2 = (case filler_words_entry s of
                  None \<Rightarrow> a1
                | Some ws \<Rightarrow> a1\<lparr>filler_words := ws\<rparr>)
      in (a2, [Log_info ''Speech analyzer settings updated'']))"

subsection \<open>Fluency: filler words and speaking rate\<close>

record filler_metrics =
  f_count :: int
  f_ratio :: rat
  f_types :: "string set"
  f_score :: int

definition analyze_fillers :: "analyzer \<Rightarrow> string \<Rightarrow> filler_metrics" where
  "analyze_fillers a transcription =
     (if transcription = [] then \<lparr>f_count = 0, f_ratio = 0, f_types = {}, f_score = 100\<rparr>
      else
        let words = find_words (py_lower transcription);
            total_words = length words
        in if total_words = 0
           then \<lparr>f_count = 0, f_ratio = 0, f_types = {}, f_score = 100\<rparr>
           else
             let found = filter (\<lambda>word. word \<in> set (filler_words a)) words;
                 filler_count = length found;
                 filler_ratio = fl (of_nat filler_count / of_nat total_words);
                 score =
                   (if filler_ratio \<le> filler_words_threshold (thresholds a) then 100
                    else max 0 (py_int (fsub 100 (fmul filler_ratio 1000))))
             in \<lparr>f_count = int filler_count, f_ratio = filler_ratio,
                 f_types = set found, f_score = score\<rparr>)"

record rate_metrics =
  words_per_minute :: rat
  word_count :: "int option"
  r_score :: int

definition analyze_speaking_rate :: "analyzer \<Rightarrow> string \<Rightarrow> rat \<Rightarrow> rate_metrics" where
  "analyze_speaking_rate a transcription duration =
     (if transcription = [] \<or> duration \<le> 0
      then \<lparr>words_per_minute = 0, word_count = None, r_score = 0\<rparr>
      else
        let n = int (length (find_words transcription));
            wpm = fmul (fl (of_int n / duration)) 60;
            lo = fst (speaking_rate_good (thresholds a));
            hi = snd (speaking_rate_good (thresholds a))
        in if lo \<le> wpm \<and> wpm \<le> hi
           then \<lparr>words_per_minute = wpm, word_count = Some n, r_score = 100\<rparr>
           else if wpm < lo then
             (case fdiv wpm lo of
                None \<Rightarrow> \<lparr>words_per_minute = 0, word_count = Some 0, r_score = 0\<rparr>
              | Some q \<Rightarrow>
                  \<lparr>words_per_minute = wpm, word_count = Some n,
                   r_score = max 0 (py_int (fmul q 100))\<rparr>)
           else
             \<lparr>words_per_minute = wpm, word_count = Some n,
              r_score = max 0 (py_int (fsub 100 (fl (fsub wpm hi / 2))))\<rparr>)"


subsection \<open>Prosody\<close>

text \<open>
  The pitch contour is computed by an external library (Parselmouth); it is an input
  here, \<open>None\<close> when the library raised.  Its values are doubles.  \<open>np.mean\<close> and
  \<open>np.std\<close> of such an array are computed by numpy in double precision, in numpy's own
  order of summation; what they return is an input too: the record \<open>numpy\<close> holds the two
  functions.  \<open>np.max\<close> and \<open>np.min\<close> select an element, their difference is one float
  subtraction.
\<close>

record numpy =
  mean64 :: "rat list \<Rightarrow> rat"
  std64 :: "rat list \<Rightarrow> rat"

record tone_metrics =
  pitch_mean :: rat
  pitch_std :: rat
  pitch_range :: rat
  t_score :: int

definition analyze_tone :: "numpy \<Rightarrow> analyzer \<Rightarrow> rat list option \<Rightarrow> tone_metrics" where
  "analyze_tone np a pitch =
     (case pitch of
        None \<Rightarrow> \<lparr>pitch_mean = 0, pitch_std = 0, pitch_range = 0, t_score = 0\<rparr>
      | Some pitch_values \<Rightarrow>
          let valid_pitch = filter (\<lambda>p. p > 0) pitch_values
          in if length valid_pitch = 0
             then \<lparr>pitch_mean = 0, pitch_std = 0, pitch_range = 0, t_score = 0\<rparr>
             else
               let sd = std64 np valid_pitch;
                   variance_score =
                     (if sd < fst (pitch_variance_good (thresholds a)) then 50
                      else if sd > snd (pitch_variance_good (thresholds a)) then 70
                      else 100)
               in \<lparr>pitch_mean = mean64 np valid_pitch, pitch_std = sd,
                   pitch_range = fsub (Max (set valid_pitch)) (Min (set valid_pitch)),
                   t_score = variance_score\<rparr>)"

subsection \<open>Scores and alerts\<close>

text \<open>
  The clarity and volume extractors rest on external signal-processing routines; their
  result is an input here: the measurements by name, and the score.  In the record of
  all metrics, \<open>None\<close> is the empty dictionary \<open>{}\<close>.
\<close>

record measured =
  m_values :: "(string \<times> real) list"
  m_score :: int

record metrics =
  tone :: "tone_metrics option"
  clarity :: "measured option"
  volume :: "measured option"
  fillers :: "filler_metrics option"
  rate :: "rate_metrics option"

record scores =
  s_overall :: int
  s_tone :: int
  s_clarity :: int
  s_volume :: int
  s_fluency :: int

definition weighted_sum :: "int \<Rightarrow> int \<Rightarrow> int \<Rightarrow> int \<Rightarrow> rat" where
  \<comment> \<open>\<open>tone * 0.25 + clarity * 0.25 + volume * 0.2 + fluency * 0.3\<close>, left to right.\<close>
  "weighted_sum t c v f =
     fadd
       (fadd
          (fadd (fmul (float_of_int t) (fl (1 / 4))) (fmul (float_of_int c) (fl (1 / 4))))
          (fmul (float_of_int v) (fl (1 / 5))))
       (fmul (float_of_int f) (fl (3 / 10)))"

definition calculate_scores :: "analyzer \<Rightarrow> metrics \<Rightarrow> scores" where
  "calculate_scores a m =
     (let t = (case tone m of None \<Rightarrow> 0 | Some x \<Rightarrow> t_score x);
          c = (case clarity m of None \<Rightarrow> 0 | Some x \<Rightarrow> m_score x);
          v = (case volume m of None \<Rightarrow> 0 | Some x \<Rightarrow> m_score x);
          f = ((case fillers m of None \<Rightarrow> 0 | Some x \<Rightarrow> f_score x)
               + (case rate m of None \<Rightarrow> 0 | Some x \<Rightarrow> r_score x)) div 2
      in \<lparr>s_overall = py_int (weighted_sum t c v f),
          s_tone = t, s_clarity = c, s_volume = v, s_fluency = f\<rparr>)"

text \<open>
  An alert is one of six fixed messages; the filler alert shows the observed ratio, the
  error alert the text of the exception.
\<close>

datatype alert =
    Vary_pitch
  | Clear_articulation
  | Consistent_volume
  | Reduce_fillers rat
  | Speak_faster
  | Slow_down
  | Analysis_error string

definition generate_alerts :: "analyzer \<Rightarrow> metrics \<Rightarrow> scores \<Rightarrow> alert list" where
  "generate_alerts a m sc =
     (let filler_ratio = (case fillers m of None \<Rightarrow> 0 | Some x \<Rightarrow> f_ratio x);
          wpm = (case rate m of None \<Rightarrow> 0 | Some x \<Rightarrow> words_per_minute x)
      in (if s_tone sc < 70 then [Vary_pitch] else [])
         @ (if s_clarity sc < 70 then [Clear_articulation] else [])
         @ (if s_volume sc < 70 then [Consistent_volume] else [])
         @ (if filler_ratio > filler_words_threshold (thresholds a)
            then [Reduce_fillers filler_ratio] else [])
         @ (if wpm > 0
            then (if wpm < fst (speaking_rate_good (thresholds a)) then [Speak_faster]
                  else if wpm > snd (speaking_rate_good (thresholds a)) then [Slow_down]
                  else [])
            else []))"

subsection \<open>Transcription\<close>

text \<open>
  The outside world of one call of \<open>_transcribe_audio\<close>: the name the temporary file
  gets, whether creating it and writing the WAV data succeed, and what
  \<open>subprocess.run\<close> does: it returns (exit code, standard output, standard error),
  raises \<open>TimeoutExpired\<close> after 30 seconds, or raises another error.  The file system
  is the set of existing paths.
\<close>

datatype run_outcome = Completed int string string | Timeout_expired | Run_error

record transcribe_env =
  tmp_name :: string
  tmp_created :: bool
  wav_written :: bool
  run_whisper :: run_outcome

definition first_text_line :: "string \<Rightarrow> string" where
  "first_text_line out =
     (case filter (\<lambda>line. line \<noteq> [] \<and> \<not> startswith line ''['' \<and> \<not> startswith line ''whisper_'')
             (split_lines (py_strip out)) of
        [] \<Rightarrow> []
      | line # _ \<Rightarrow> py_strip line)"

definition transcribe_audio ::
  "analyzer \<Rightarrow> transcribe_env \<Rightarrow> string set \<Rightarrow> sample list \<Rightarrow> int \<Rightarrow> string \<times> string set" where
  "transcribe_audio a env files audio_data rate_hz =
     (if whisper_cli_path a \<in> {None, Some []} \<or> whisper_model_path a \<in> {None, Some []}
      then ([], files)
      else if \<not> tmp_created env then ([], files)
      else
        let files1 = insert (tmp_name env) files
        in if rate_hz \<le> 0 \<or> \<not> wav_written env then ([], files1)
           else
             (case run_whisper env of
                Timeout_expired \<Rightarrow> ([], files1)
              | Run_error \<Rightarrow> ([], files1)
              | Completed returncode out err \<Rightarrow>
                  let files2 = files1 - {tmp_name env}
                  in if returncode = 0 then (first_text_line out, files2)
                     else ([], files2)))"

subsection \<open>The analysis of one window\<close>

text \<open>
  The energy gate.  Its mean and square root are taken in exact real arithmetic; on a
  window of zeros every intermediate value is exactly 0 in the code's arithmetic as
  well.
\<close>

definition np_mean :: "real list \<Rightarrow> real" where
  "np_mean xs = sum_list xs / real (length xs)"

definition has_speech :: "real list \<Rightarrow> real \<Rightarrow> bool" where
  \<comment> \<open>On an empty array \<open>np.mean\<close> is NaN, and a comparison with NaN is false.\<close>
  "has_speech audio threshold =
     (if audio = [] then False
      else sqrt (np_mean (map (\<lambda>x. x\<^sup>2) audio)) > threshold)"

record results =
  duration :: rat
  transcription :: string
  metrics :: metrics
  scores :: scores
  alerts :: "alert list"
  error :: "string option"

definition no_metrics :: metrics where
  "no_metrics = \<lparr>tone = None, clarity = None, volume = None, fillers = None, rate = None\<rparr>"

definition zero_scores :: scores where
  "zero_scores = \<lparr>s_overall = 0, s_tone = 0, s_clarity = 0, s_volume = 0, s_fluency = 0\<rparr>"

definition empty_result :: "string \<Rightarrow> results" where
  "empty_result e =
     \<lparr>duration = 0, transcription = [], metrics = no_metrics, scores = zero_scores,
      alerts = (if e \<noteq> [] then [Analysis_error e] else []), error = Some e\<rparr>"

text \<open>
  What the libraries and the transcription engine do during one call of
  \<open>analyze_audio\<close>, and the stages the call runs, in order.
\<close>

record externals =
  whisper :: transcribe_env
  numpy_lib :: numpy
  pitch_contour :: "rat list option"
  clarity_result :: measured
  volume_result :: measured

datatype stage =
  Transcribe | Tone | Clarity | Volume | Fillers | Rate | Calculate_scores | Generate_alerts

definition analyze_audio ::
  "analyzer \<Rightarrow> externals \<Rightarrow> string set \<Rightarrow> sample list \<Rightarrow> int
     \<Rightarrow> results \<times> stage list \<times> string set" where
  "analyze_audio a ext files audio_data rate_hz =
     (if rate_hz = 0 then (empty_result ''division by zero'', [], files)
      else
        let audio_float = map (\<lambda>x. real_of_int (sint x) / 32767) audio_data;
            d = fl (of_nat (length audio_data) / of_int rate_hz)
        in if has_speech audio_float (of_rat (fl (1 / 100))) then
             let (text, files1) = transcribe_audio a (whisper ext) files audio_data rate_hz;
                 m = \<lparr>tone = Some (analyze_tone (numpy_lib ext) a (pitch_contour ext)),
                      clarity = Some (clarity_result ext),
                      volume = Some (volume_result ext),
                      fillers = (if text \<noteq> [] then Some (analyze_fillers a text) else None),
                      rate = (if text \<noteq> [] then Some (analyze_speaking_rate a text d)
                              else None)\<rparr>;
                 sc = calculate_scores a m
             in (\<lparr>duration = d, transcription = text, metrics = m, scores = sc,
                  alerts = generate_alerts a m sc, error = None\<rparr>,
                 [Transcribe, Tone, Clarity, Volume]
                   @ (if text \<noteq> [] then [Fillers, Rate] else [])
                   @ [Calculate_scores, Generate_alerts],
                 files1)
           else
             (\<lparr>duration = d, transcription = [], metrics = no_metrics, scores = zero_scores,
               alerts = [], error = None\<rparr>,
              [], files))"

subsection \<open>Test data\<close>

text \<open>Metrics that carry given scores and nothing else, to run the aggregator on.\<close>

definition example_metrics :: "int \<Rightarrow> int \<Rightarrow> int \<Rightarrow> int \<Rightarrow> int \<Rightarrow> metrics" where
  "example_metrics t c v f r =
     \<lparr>tone = Some \<lparr>pitch_mean = 0, pitch_std = 0, pitch_range = 0, t_score = t\<rparr>,
      clarity = Some \<lparr>m_values = [], m_score = c\<rparr>,
      volume = Some \<lparr>m_values = [], m_score = v\<rparr>,
      fillers = Some \<lparr>f_count = 0, f_ratio = 0, f_types = {}, f_score = f\<rparr>,
      rate = Some \<lparr>words_per_minute = 0, word_count = None, r_score = r\<rparr>\<rparr>"


text \<open>
  A small configuration (windows of 4 samples, overlap 1, step 3), the state in which
  \<open>start_recording\<close> leaves the buffer, and a schedule of callbacks and passes.
\<close>

definition example_settings :: audio_settings where
  "example_settings =
     \<lparr>sample_rate = 8, analysis_chunk_duration = 1 / 2, overlap_duration = 1 / 8\<rparr>"

definition cleared :: manager where
  "cleared = \<lparr>audio_buffer = [], last_emit_time = 0, emitted = []\<rparr>"

definition example_schedule :: "event list" where
  "example_schedule =
     [Callback [1, 2, 3], Pass [] 1, Callback [4, 5], Pass [] 2, Pass [6, 7] (201 / 100),
      Callback [8, 9, 10], Pass [] 3, Pass [] 4]"


text \<open>
  An analyzer that found the transcription engine, and an outside world in which the
  engine runs into the timeout.
\<close>

definition configured :: analyzer where
  "configured =
     init_analyzer (Some ''whisper.cpp/models/ggml-base.en.bin'')
       (Some ''whisper.cpp/build/bin/whisper-cli'')"

definition engine_times_out :: transcribe_env where
  "engine_times_out =
     \<lparr>tmp_name = ''/tmp/tmpk3v9x2.wav'', tmp_created = True, wav_written = True,
      run_whisper = Timeout_expired\<rparr>"

text \<open>
  What numpy returns on three short contours, where every intermediate value is exact:
  mean 150 and deviation 50 for 100, 200; mean 100 and deviation 0 for 100, 100; mean 300
  and deviation 200 for 100, 500.  The table holds nothing else.
\<close>

definition numpy_table :: numpy where
  "numpy_table =
     \<lparr>mean64 = (\<lambda>xs. if xs = [100, 200] then 150 else if xs = [100, 100] then 100
                    else if xs = [100, 500] then 300 else 0),
      std64 = (\<lambda>xs. if xs = [100, 200] then 50 else if xs = [100, 500] then 200 else 0)\<rparr>"

definition example_externals :: externals where
  "example_externals =
     \<lparr>whisper = engine_times_out, numpy_lib = numpy_table,
      pitch_contour = Some [0, 100, 0, 200],
      clarity_result = \<lparr>m_values = [(''spectral_centroid_mean'', 1500)], m_score = 60\<rparr>,
      volume_result = \<lparr>m_values = [(''consistency'', 9 / 10)], m_score = 90\<rparr>\<rparr>"


section \<open>Properties of the arithmetic\<close>

lemma py_int_mono:
  assumes "x \<le> y"
  shows "py_int x \<le> py_int y"
proof -
  consider "0 \<le> x" | "x < 0" "0 \<le> y" | "y < 0" by linarith
  then show ?thesis
  proof cases
    case 1
    then have "0 \<le> y" using assms by simp
    then show ?thesis using 1 assms by (simp add: py_int_def floor_mono)
  next
    case 2
    have "\<lceil>x\<rceil> \<le> 0" using 2(1) by (simp add: ceiling_le_iff)
    moreover have "0 \<le> \<lfloor>y\<rfloor>" using 2(2) by simp
    ultimately have "\<lceil>x\<rceil> \<le> \<lfloor>y\<rfloor>" by linarith
    then show ?thesis using 2 by (simp add: py_int_def)
  next
    case 3
    then have "x < 0" using assms by simp
    then show ?thesis using 3 assms by (simp add: py_int_def ceiling_mono)
  qed
qed

lemma round_half_even_ge_floor: "\<lfloor>x\<rfloor> \<le> round_half_even x"
  by (simp add: round_half_even_def Let_def)

lemma round_half_even_le_ceiling: "round_half_even x \<le> \<lceil>x\<rceil>"
proof (cases "x = of_int \<lfloor>x\<rfloor>")
  case True
  then have "x - of_int \<lfloor>x\<rfloor> = 0" by simp
  then have "round_half_even x = \<lfloor>x\<rfloor>"
    unfolding round_half_even_def Let_def by simp
  then show ?thesis by (simp add: floor_le_ceiling)
next
  case False
  then have "\<lceil>x\<rceil> = \<lfloor>x\<rfloor> + 1" by (simp add: ceiling_altdef)
  moreover have "round_half_even x \<le> \<lfloor>x\<rfloor> + 1"
    by (simp add: round_half_even_def Let_def)
  ultimately show ?thesis by simp
qed

lemma round_half_even_between:
  assumes "of_int lo \<le> x" and "x \<le> of_int hi"
  shows "lo \<le> round_half_even x" and "round_half_even x \<le> hi"
proof -
  have "lo \<le> \<lfloor>x\<rfloor>" using assms(1) by (simp add: le_floor_iff)
  then show "lo \<le> round_half_even x"
    using round_half_even_ge_floor [of x] by linarith
  have "\<lceil>x\<rceil> \<le> hi" using assms(2) by (simp add: ceiling_le_iff)
  then show "round_half_even x \<le> hi"
    using round_half_even_le_ceiling [of x] by linarith
qed

lemma round_half_even_mono:
  assumes "x \<le> y"
  shows "round_half_even x \<le> round_half_even y"
proof (cases "\<lfloor>x\<rfloor> = \<lfloor>y\<rfloor>")
  case True
  have "x - of_int \<lfloor>x\<rfloor> \<le> y - of_int \<lfloor>y\<rfloor>" using assms True by simp
  then show ?thesis
    unfolding round_half_even_def Let_def using True by auto
next
  case False
  have "\<lfloor>x\<rfloor> \<le> \<lfloor>y\<rfloor>" using assms by (rule floor_mono)
  with False have "\<lfloor>x\<rfloor> + 1 \<le> \<lfloor>y\<rfloor>" by simp
  moreover have "round_half_even x \<le> \<lfloor>x\<rfloor> + 1"
    by (simp add: round_half_even_def Let_def)
  ultimately show ?thesis
    using round_half_even_ge_floor [of y] by linarith
qed

lemma binade_bounds:
  assumes "0 < x"
  shows "2 powi binade x \<le> x" and "x < 2 powi (binade x + 1)"
proof -
  have "2 powi binade x \<le> x \<and> x < 2 powi (binade x + 1)"
  proof (cases "1 \<le> x")
    case True
    define n where "n = \<lfloor>x\<rfloor>"
    have n: "0 < n" using True by (simp add: n_def)
    then have b1: "1 \<le> bitlen n" by (simp add: bitlen_alt_def)
    have e: "binade x = bitlen n - 1" using True by (simp add: binade_def n_def)
    from bitlen_bounds [OF n]
    have lo: "2 ^ nat (bitlen n - 1) \<le> n" and hi: "n < 2 ^ nat (bitlen n)" by auto
    have "(2::rat) powi (bitlen n - 1) = of_int (2 ^ nat (bitlen n - 1))"
      using b1 by (simp add: power_int_def)
    also have "\<dots> \<le> of_int n" using lo by (simp only: of_int_le_iff)
    also have "\<dots> \<le> x" by (simp add: n_def)
    finally have A: "2 powi binade x \<le> x" by (simp add: e)
    have "n + 1 \<le> 2 ^ nat (bitlen n)" using hi by simp
    then have "(of_int (n + 1) :: rat) \<le> of_int (2 ^ nat (bitlen n))"
      by (simp only: of_int_le_iff)
    moreover have "x < of_int (n + 1)" unfolding n_def by linarith
    moreover have "(2::rat) powi (bitlen n) = of_int (2 ^ nat (bitlen n))"
      using b1 by (simp add: power_int_def)
    ultimately have "x < 2 powi (binade x + 1)" by (simp add: e)
    with A show ?thesis by simp
  next
    case False
    then have x1: "x < 1" by simp
    define c where "c = \<lceil>1 / x\<rceil>"
    have "1 < 1 / x" using assms x1 by simp
    then have c2: "2 \<le> c" unfolding c_def by (simp add: le_ceiling_iff)
    define b where "b = bitlen (c - 1)"
    have c0: "0 < c - 1" using c2 by simp
    then have b1: "1 \<le> b" by (simp add: b_def bitlen_alt_def)
    have e: "binade x = - b" using False by (simp add: binade_def b_def c_def)
    from bitlen_bounds [OF c0]
    have lo: "2 ^ nat (b - 1) \<le> c - 1" and hi: "c - 1 < 2 ^ nat b" by (auto simp: b_def)
    have "1 / x \<le> of_int c" unfolding c_def by (rule le_of_int_ceiling)
    also have "(of_int c :: rat) \<le> of_int (2 ^ nat b)"
      using hi by (simp only: of_int_le_iff)
    finally have "1 / x \<le> 2 ^ nat b" by simp
    then have "1 / 2 ^ nat b \<le> x" using assms
      by (simp add: field_simps)
    moreover have "(2::rat) powi (- b) = 1 / 2 ^ nat b"
      using b1 by (simp add: power_int_def field_simps)
    ultimately have A: "2 powi binade x \<le> x" by (simp add: e)
    have "(of_int (2 ^ nat (b - 1)) :: rat) \<le> of_int (c - 1)"
      using lo by (simp only: of_int_le_iff)
    moreover have "(of_int (c - 1) :: rat) < 1 / x"
      using ceiling_correct [of "1 / x"] by (simp add: c_def)
    ultimately have "2 ^ nat (b - 1) < 1 / x" by simp
    then have "x < 1 / 2 ^ nat (b - 1)" using assms by (simp add: field_simps)
    moreover have "(2::rat) powi (- b + 1) = 1 / 2 ^ nat (b - 1)"
    proof -
      have "- b + 1 = - (b - 1)" by simp
      then show ?thesis using b1 by (simp add: power_int_def field_simps)
    qed
    ultimately have "x < 2 powi (binade x + 1)" by (simp add: e)
    with A show ?thesis by simp
  qed
  then show "2 powi binade x \<le> x" and "x < 2 powi (binade x + 1)" by simp_all
qed


lemma binade_mono:
  assumes "0 < x" and "x \<le> y"
  shows "binade x \<le> binade y"
proof (rule ccontr)
  assume "\<not> binade x \<le> binade y"
  then have "binade y + 1 \<le> binade x" by simp
  then have "(2::rat) powi (binade y + 1) \<le> 2 powi binade x"
    by (intro power_int_increasing) simp_all
  moreover have "y < 2 powi (binade y + 1)" using assms by (intro binade_bounds) simp
  moreover have "2 powi binade x \<le> x" using assms by (intro binade_bounds)
  ultimately show False using assms(2) by linarith
qed

lemma fl_pos_eq:
  "0 < x \<Longrightarrow> fl x = of_int (round_half_even (x / 2 powi (binade x - 52))) * 2 powi (binade x - 52)"
  by (simp add: fl_def Let_def)

lemma fl_pos_bounds:
  assumes "0 < x"
  shows "2 powi binade x \<le> fl x" and "fl x \<le> 2 powi (binade x + 1)"
proof -
  define e where "e = binade x"
  define q :: rat where "q = 2 powi (e - 52)"
  have q0: "0 < q" by (simp add: q_def)
  have lo: "2 powi e = of_int (2 ^ 52) * q"
    unfolding q_def by (simp add: power_int_diff)
  have hi: "2 powi (e + 1) = of_int (2 ^ 53) * q"
    unfolding q_def by (simp add: power_int_diff power_int_add)
  have "of_int (2 ^ 52) * q \<le> x" using binade_bounds(1) [OF assms] lo by (simp add: e_def)
  then have A: "of_int (2 ^ 52) \<le> x / q" using q0 by (simp add: field_simps)
  have "x \<le> of_int (2 ^ 53) * q" using binade_bounds(2) [OF assms] hi by (simp add: e_def)
  then have B: "x / q \<le> of_int (2 ^ 53)" using q0 by (simp add: field_simps)
  from round_half_even_between [OF A B]
  have "2 ^ 52 \<le> round_half_even (x / q)" and "round_half_even (x / q) \<le> 2 ^ 53" by auto
  then have "(of_int (2 ^ 52) :: rat) \<le> of_int (round_half_even (x / q))"
    and "(of_int (round_half_even (x / q)) :: rat) \<le> of_int (2 ^ 53)"
    by (simp_all only: of_int_le_iff)
  then have "of_int (2 ^ 52) * q \<le> of_int (round_half_even (x / q)) * q"
    and "of_int (round_half_even (x / q)) * q \<le> of_int (2 ^ 53) * q"
    using q0 by (simp_all only: mult_le_cancel_right_pos)
  moreover have "fl x = of_int (round_half_even (x / q)) * q"
    using assms by (simp add: fl_pos_eq q_def e_def)
  ultimately show "2 powi binade x \<le> fl x" and "fl x \<le> 2 powi (binade x + 1)"
    using lo hi by (simp_all add: e_def)
qed

lemma fl_pos: "0 < x \<Longrightarrow> 0 < fl x"
proof -
  assume "0 < x"
  then have "2 powi binade x \<le> fl x" by (rule fl_pos_bounds)
  moreover have "(0::rat) < 2 powi binade x" by simp
  ultimately show ?thesis by linarith
qed

lemma fl_minus: "fl (- x) = - fl x"
  by (simp add: fl_def Let_def sgn_minus)

lemma fl_zero: "fl 0 = 0"
  by (simp add: fl_def)

lemma fl_nonneg: "0 \<le> x \<Longrightarrow> 0 \<le> fl x"
  using fl_pos [of x] by (cases "x = 0") (simp_all add: fl_zero less_eq_rat_def [of 0 x] order.strict_implies_order)

lemma fl_mono_pos:
  assumes "0 < x" and "x \<le> y"
  shows "fl x \<le> fl y"
proof (cases "binade x = binade y")
  case True
  define q :: rat where "q = 2 powi (binade x - 52)"
  have q0: "0 < q" by (simp add: q_def)
  have y0: "0 < y" using assms by simp
  have "x / q \<le> y / q" using assms(2) q0 by (simp add: divide_right_mono)
  then have "round_half_even (x / q) \<le> round_half_even (y / q)"
    by (rule round_half_even_mono)
  then have "(of_int (round_half_even (x / q)) :: rat) \<le> of_int (round_half_even (y / q))"
    by (simp only: of_int_le_iff)
  then have "of_int (round_half_even (x / q)) * q \<le> of_int (round_half_even (y / q)) * q"
    using q0 by (simp only: mult_le_cancel_right_pos)
  then show ?thesis
    using assms(1) y0 True by (simp add: fl_pos_eq q_def)
next
  case False
  have y0: "0 < y" using assms by simp
  have "binade x \<le> binade y" using assms by (rule binade_mono)
  with False have "binade x + 1 \<le> binade y" by simp
  then have "(2::rat) powi (binade x + 1) \<le> 2 powi binade y"
    by (intro power_int_increasing) simp_all
  moreover have "fl x \<le> 2 powi (binade x + 1)" using assms(1) by (rule fl_pos_bounds)
  moreover have "2 powi binade y \<le> fl y" using y0 by (rule fl_pos_bounds)
  ultimately show ?thesis by linarith
qed

lemma fl_mono:
  assumes "x \<le> y"
  shows "fl x \<le> fl y"
proof -
  consider "0 < x" | "x \<le> 0" "0 \<le> y" | "y < 0" by linarith
  then show ?thesis
  proof cases
    case 1
    then show ?thesis using assms by (rule fl_mono_pos)
  next
    case 2
    have "0 \<le> fl y" using 2(2) by (rule fl_nonneg)
    moreover have "0 \<le> fl (- x)" using 2(1) by (intro fl_nonneg) simp
    ultimately show ?thesis by (simp add: fl_minus)
  next
    case 3
    have "fl (- y) \<le> fl (- x)" using 3 assms by (intro fl_mono_pos) simp_all
    then show ?thesis by (simp add: fl_minus)
  qed
qed

subsection \<open>Evaluating the rounding on numerals\<close>

lemma bitlen_numeral_eval:
  "bitlen (numeral k) = bitlen (numeral k div 2) + 1" "bitlen 1 = 1"
  by (subst compute_bitlen, simp)+

lemma floor_rat_numeral:
  "\<lfloor>numeral a / numeral b :: rat\<rfloor> = numeral a div numeral b"
  "\<lfloor>- (numeral a / numeral b) :: rat\<rfloor> = - numeral a div numeral b"
  "\<lfloor>1 / numeral b :: rat\<rfloor> = 1 div numeral b"
  "\<lfloor>- (1 / numeral b) :: rat\<rfloor> = - 1 div numeral b"
     apply (metis floor_divide_of_int_eq of_int_numeral)
    apply (metis floor_divide_of_int_eq of_int_numeral of_int_minus minus_divide_left)
   apply (metis floor_divide_of_int_eq of_int_numeral of_int_1)
  apply (metis floor_divide_of_int_eq of_int_numeral of_int_minus minus_divide_left of_int_1)
  done

lemma ceiling_rat_numeral:
  "\<lceil>numeral a / numeral b :: rat\<rceil> = - (- numeral a div numeral b)"
  "\<lceil>- (numeral a / numeral b) :: rat\<rceil> = - (numeral a div numeral b)"
  "\<lceil>1 / numeral b :: rat\<rceil> = - (- 1 div numeral b)"
  "\<lceil>- (1 / numeral b) :: rat\<rceil> = - (1 div numeral b)"
  unfolding ceiling_def by (simp_all add: floor_rat_numeral)

lemmas fl_eval =
  fl_def binade_def bitlen_numeral_eval round_half_even_def Let_def power_int_def
  power_one_over floor_rat_numeral ceiling_rat_numeral py_int_def
  float_of_int_def fadd_def fsub_def fmul_def fdiv_def

subsection \<open>The weighted sum\<close>

lemma float_of_int_mono: "m \<le> n \<Longrightarrow> float_of_int m \<le> float_of_int n"
  by (simp add: float_of_int_def fl_mono)

lemma fmul_mono_left: "x \<le> y \<Longrightarrow> 0 \<le> k \<Longrightarrow> fmul x k \<le> fmul y k"
  by (simp add: fmul_def fl_mono mult_right_mono)

lemma fadd_mono: "x \<le> x' \<Longrightarrow> y \<le> y' \<Longrightarrow> fadd x y \<le> fadd x' y'"
  by (simp add: fadd_def fl_mono add_mono)

lemma fsub_mono: "x \<le> x' \<Longrightarrow> y' \<le> y \<Longrightarrow> fsub x y \<le> fsub x' y'"
  by (simp add: fsub_def fl_mono diff_mono)

lemma weighted_sum_mono:
  assumes "t \<le> t'" and "c \<le> c'" and "v \<le> v'" and "f \<le> f'"
  shows "weighted_sum t c v f \<le> weighted_sum t' c' v' f'"
  unfolding weighted_sum_def
  by (intro fadd_mono fmul_mono_left float_of_int_mono assms fl_nonneg) simp_all

lemma weighted_sum_0: "weighted_sum 0 0 0 0 = 0"
  by (simp add: weighted_sum_def fl_eval)

lemma weighted_sum_100: "weighted_sum 100 100 100 100 = 100"
  by (simp add: weighted_sum_def fl_eval)

lemma weighted_sum_range:
  assumes "0 \<le> t" "t \<le> 100" "0 \<le> c" "c \<le> 100" "0 \<le> v" "v \<le> 100" "0 \<le> f" "f \<le> 100"
  shows "0 \<le> py_int (weighted_sum t c v f)" and "py_int (weighted_sum t c v f) \<le> 100"
proof -
  have "weighted_sum 0 0 0 0 \<le> weighted_sum t c v f"
    using assms by (intro weighted_sum_mono)
  then have "py_int 0 \<le> py_int (weighted_sum t c v f)"
    unfolding weighted_sum_0 by (rule py_int_mono)
  then show "0 \<le> py_int (weighted_sum t c v f)" by (simp add: py_int_def)
  have "weighted_sum t c v f \<le> weighted_sum 100 100 100 100"
    using assms by (intro weighted_sum_mono)
  then have "py_int (weighted_sum t c v f) \<le> py_int 100"
    unfolding weighted_sum_100 by (rule py_int_mono)
  then show "py_int (weighted_sum t c v f) \<le> 100" by (simp add: py_int_def)
qed


text \<open>
  C2 (amended).  For sub-scores between 0 and 100 the overall score is
  \<open>int(tone * 0.25 + clarity * 0.25 + volume * 0.2 + fluency * 0.3)\<close>: the weighted sum,
  computed in double precision, truncated toward zero (not rounded); it is an integer
  between 0 and 100.
\<close>

theorem overall_is_truncated_weighted_sum_in_range:
  assumes "0 \<le> s_tone (calculate_scores a m) \<and> s_tone (calculate_scores a m) \<le> 100"
    and "0 \<le> s_clarity (calculate_scores a m) \<and> s_clarity (calculate_scores a m) \<le> 100"
    and "0 \<le> s_volume (calculate_scores a m) \<and> s_volume (calculate_scores a m) \<le> 100"
    and "0 \<le> s_fluency (calculate_scores a m) \<and> s_fluency (calculate_scores a m) \<le> 100"
  shows "s_overall (calculate_scores a m) =
           py_int (weighted_sum (s_tone (calculate_scores a m)) (s_clarity (calculate_scores a m))
             (s_volume (calculate_scores a m)) (s_fluency (calculate_scores a m)))
         \<and> 0 \<le> s_overall (calculate_scores a m) \<and> s_overall (calculate_scores a m) \<le> 100"
proof -
  define sc where "sc = calculate_scores a m"
  have eq: "s_overall sc = py_int (weighted_sum (s_tone sc) (s_clarity sc) (s_volume sc) (s_fluency sc))"
    by (simp add: sc_def calculate_scores_def Let_def)
  have "0 \<le> py_int (weighted_sum (s_tone sc) (s_clarity sc) (s_volume sc) (s_fluency sc))"
    and "py_int (weighted_sum (s_tone sc) (s_clarity sc) (s_volume sc) (s_fluency sc)) \<le> 100"
    using assms unfolding sc_def [symmetric] by (simp_all add: weighted_sum_range)
  with eq show ?thesis unfolding sc_def by simp
qed

lemma calculate_scores_example:
  "calculate_scores a (example_metrics t c v f r) =
     \<lparr>s_overall = py_int (weighted_sum t c v ((f + r) div 2)),
      s_tone = t, s_clarity = c, s_volume = v, s_fluency = (f + r) div 2\<rparr>"
  by (simp add: calculate_scores_def example_metrics_def Let_def)

lemma weighted_sum_example_1: "weighted_sum 50 70 80 83 = 2494571981098189 / 35184372088832"
  by (simp add: weighted_sum_def fl_eval)

lemma weighted_sum_example_2:
  "weighted_sum 100 100 100 99 = 7015763794513101 / 70368744177664"
  by (simp add: weighted_sum_def fl_eval)

theorem overall_is_truncated_weighted_sum_in_range_witness:
  "(let sc = calculate_scores (init_analyzer None None) (example_metrics 50 70 80 100 66)
    in (0 \<le> s_tone sc \<and> s_tone sc \<le> 100) \<and> (0 \<le> s_clarity sc \<and> s_clarity sc \<le> 100)
       \<and> (0 \<le> s_volume sc \<and> s_volume sc \<le> 100) \<and> (0 \<le> s_fluency sc \<and> s_fluency sc \<le> 100)
       \<and> s_overall sc = 70 \<and> 0 \<le> s_overall sc \<and> s_overall sc \<le> 100)"
proof -
  have sc: "calculate_scores (init_analyzer None None) (example_metrics 50 70 80 100 66) =
      \<lparr>s_overall = 70, s_tone = 50, s_clarity = 70, s_volume = 80, s_fluency = 83\<rparr>"
    by (simp add: calculate_scores_example weighted_sum_example_1 py_int_def floor_rat_numeral)
  show ?thesis
    using overall_is_truncated_weighted_sum_in_range
      [of "init_analyzer None None" "example_metrics 50 70 80 100 66"]
    unfolding sc by simp
qed

text \<open>
  C2 as stated fails: with tone, clarity and volume 100 and fluency 99 the weighted sum
  is 99.7, which rounds to 100, and the code returns 99.
\<close>

theorem overall_is_not_rounded:
  "s_overall (calculate_scores (init_analyzer None None) (example_metrics 100 100 100 100 98))
     \<noteq> round_half_even (weighted_sum 100 100 100 99)
   \<and> s_overall (calculate_scores (init_analyzer None None) (example_metrics 100 100 100 100 98))
     = 99
   \<and> round_half_even (weighted_sum 100 100 100 99) = 100"
proof -
  have "s_overall (calculate_scores (init_analyzer None None)
          (example_metrics 100 100 100 100 98)) = 99"
    by (simp add: calculate_scores_example weighted_sum_example_2 py_int_def floor_rat_numeral)
  moreover have "round_half_even (weighted_sum 100 100 100 99) = 100"
    by (simp add: weighted_sum_example_2 round_half_even_def Let_def floor_rat_numeral)
  ultimately show ?thesis by simp
qed

subsection \<open>Filler words\<close>

lemma find_words_tokens:
  "w \<in> set (find_words s) \<Longrightarrow> is_single_word w"
proof (induction s rule: find_words.induct)
  case 1
  then show ?case by simp
next
  case (2 c cs)
  show ?case
  proof (cases "is_word_char c")
    case True
    with 2 show ?thesis
      by (auto simp: is_single_word_def list_all_iff dest: set_takeWhileD)
  next
    case False
    with 2 show ?thesis by simp
  qed
qed

lemma analyze_fillers_eq:
  "analyze_fillers a t =
     (let ws = find_words (py_lower t);
          found = filter (\<lambda>w. w \<in> set (filler_words a)) ws;
          r = fl (of_nat (length found) / of_nat (length ws))
      in if ws = [] then \<lparr>f_count = 0, f_ratio = 0, f_types = {}, f_score = 100\<rparr>
         else \<lparr>f_count = int (length found), f_ratio = r, f_types = set found,
               f_score = (if r \<le> filler_words_threshold (thresholds a) then 100
                          else max 0 (py_int (fsub 100 (fmul r 1000))))\<rparr>)"
  by (cases t) (simp_all add: analyze_fillers_def Let_def py_lower_def)

lemma filler_score_antimono:
  assumes "r1 \<le> r2"
  shows "max 0 (py_int (fsub 100 (fmul r2 1000))) \<le> max 0 (py_int (fsub 100 (fmul r1 1000)))"
proof -
  have "fmul r1 1000 \<le> fmul r2 1000" using assms by (intro fmul_mono_left) simp_all
  then have "fsub 100 (fmul r2 1000) \<le> fsub 100 (fmul r1 1000)"
    by (intro fsub_mono) simp_all
  then have "py_int (fsub 100 (fmul r2 1000)) \<le> py_int (fsub 100 (fmul r1 1000))"
    by (rule py_int_mono)
  then show ?thesis by simp
qed

text \<open>
  C7 (amended).  For a fixed total word count and two transcriptions whose filler
  ratios both exceed the threshold, the one with strictly more filler words receives a
  filler score that is no higher.
\<close>

theorem more_fillers_never_score_higher:
  assumes "length (find_words (py_lower t1)) = length (find_words (py_lower t2))"
    and "filler_words_threshold (thresholds a) < f_ratio (analyze_fillers a t1)"
    and "filler_words_threshold (thresholds a) < f_ratio (analyze_fillers a t2)"
    and "f_count (analyze_fillers a t1) < f_count (analyze_fillers a t2)"
  shows "f_score (analyze_fillers a t2) \<le> f_score (analyze_fillers a t1)"
proof -
  define ws1 where "ws1 = find_words (py_lower t1)"
  define ws2 where "ws2 = find_words (py_lower t2)"
  define c1 where "c1 = length (filter (\<lambda>w. w \<in> set (filler_words a)) ws1)"
  define c2 where "c2 = length (filter (\<lambda>w. w \<in> set (filler_words a)) ws2)"
  define n where "n = length ws1"
  have n2: "length ws2 = n" using assms(1) by (simp add: n_def ws1_def ws2_def)
  have ne2: "ws2 \<noteq> []"
    using assms(4) by (auto simp: analyze_fillers_eq Let_def ws1_def ws2_def split: if_splits)
  then have npos: "0 < n" using n2 by auto
  then have ne1: "ws1 \<noteq> []" by (auto simp: n_def)
  have less: "c1 < c2"
    using assms(4) ne1 ne2
    by (simp add: analyze_fillers_eq Let_def ws1_def [symmetric] ws2_def [symmetric] c1_def c2_def)
  define r1 :: rat where "r1 = fl (of_nat c1 / of_nat n)"
  define r2 :: rat where "r2 = fl (of_nat c2 / of_nat n)"
  have "(of_nat c1 :: rat) / of_nat n \<le> of_nat c2 / of_nat n"
    using less by (intro divide_right_mono) simp_all
  then have r12: "r1 \<le> r2" unfolding r1_def r2_def by (rule fl_mono)
  have s1: "f_ratio (analyze_fillers a t1) = r1"
    and e1: "f_score (analyze_fillers a t1) =
      (if r1 \<le> filler_words_threshold (thresholds a) then 100
       else max 0 (py_int (fsub 100 (fmul r1 1000))))"
    using ne1
    by (simp_all add: analyze_fillers_eq Let_def ws1_def [symmetric] c1_def r1_def n_def)
  have s2: "f_ratio (analyze_fillers a t2) = r2"
    and e2: "f_score (analyze_fillers a t2) =
      (if r2 \<le> filler_words_threshold (thresholds a) then 100
       else max 0 (py_int (fsub 100 (fmul r2 1000))))"
    using ne2
    by (simp_all add: analyze_fillers_eq Let_def ws2_def [symmetric] c2_def r2_def n2)
  have "\<not> r1 \<le> filler_words_threshold (thresholds a)" using assms(2) s1 by simp
  moreover have "\<not> r2 \<le> filler_words_threshold (thresholds a)" using assms(3) s2 by simp
  ultimately show ?thesis
    using e1 e2 filler_score_antimono [OF r12] by simp
qed

lemma find_words_example_1:
  "find_words (py_lower ''um um um test test'') = [''um'', ''um'', ''um'', ''test'', ''test'']"
  by code_simp

lemma find_words_example_2:
  "find_words (py_lower ''um um um um test'') = [''um'', ''um'', ''um'', ''um'', ''test'']"
  by code_simp

lemma find_words_example_3:
  "find_words (py_lower ''um a a a a a a a a a a a a a a'') =
     [''um'', ''a'', ''a'', ''a'', ''a'', ''a'', ''a'', ''a'', ''a'', ''a'', ''a'', ''a'', ''a'',
      ''a'', ''a'']"
  by code_simp

lemma find_words_example_4:
  "find_words (py_lower ''um um a a a a a a a a a a a a a'') =
     [''um'', ''um'', ''a'', ''a'', ''a'', ''a'', ''a'', ''a'', ''a'', ''a'', ''a'', ''a'', ''a'',
      ''a'', ''a'']"
  by code_simp

lemmas analyzer_defaults = init_analyzer_def default_filler_words_def default_thresholds_def

lemma analyze_fillers_example_1:
  "analyze_fillers (init_analyzer None None) ''um um um test test'' =
     \<lparr>f_count = 3, f_ratio = 5404319552844595 / 9007199254740992, f_types = {''um''},
      f_score = 0\<rparr>"
  by (simp add: analyze_fillers_eq find_words_example_1 analyzer_defaults fl_eval)

lemma analyze_fillers_example_2:
  "analyze_fillers (init_analyzer None None) ''um um um um test'' =
     \<lparr>f_count = 4, f_ratio = 3602879701896397 / 4503599627370496, f_types = {''um''},
      f_score = 0\<rparr>"
  by (simp add: analyze_fillers_eq find_words_example_2 analyzer_defaults fl_eval)

lemma analyze_fillers_example_3:
  "analyze_fillers (init_analyzer None None) ''um a a a a a a a a a a a a a a'' =
     \<lparr>f_count = 1, f_ratio = 4803839602528529 / 72057594037927936, f_types = {''um''},
      f_score = 33\<rparr>"
  by (simp add: analyze_fillers_eq find_words_example_3 analyzer_defaults fl_eval)

lemma analyze_fillers_example_4:
  "analyze_fillers (init_analyzer None None) ''um um a a a a a a a a a a a a a'' =
     \<lparr>f_count = 2, f_ratio = 4803839602528529 / 36028797018963968, f_types = {''um''},
      f_score = 0\<rparr>"
  by (simp add: analyze_fillers_eq find_words_example_4 analyzer_defaults fl_eval)

lemma default_filler_threshold:
  "filler_words_threshold (thresholds (init_analyzer None None)) =
     3602879701896397 / 72057594037927936"
  by (simp add: analyzer_defaults fl_eval)

theorem more_fillers_never_score_higher_witness:
  "length (find_words (py_lower ''um a a a a a a a a a a a a a a'')) =
     length (find_words (py_lower ''um um a a a a a a a a a a a a a''))
   \<and> filler_words_threshold (thresholds (init_analyzer None None))
       < f_ratio (analyze_fillers (init_analyzer None None) ''um a a a a a a a a a a a a a a'')
   \<and> filler_words_threshold (thresholds (init_analyzer None None))
       < f_ratio (analyze_fillers (init_analyzer None None) ''um um a a a a a a a a a a a a a'')
   \<and> f_count (analyze_fillers (init_analyzer None None) ''um a a a a a a a a a a a a a a'')
       < f_count (analyze_fillers (init_analyzer None None) ''um um a a a a a a a a a a a a a'')
   \<and> f_score (analyze_fillers (init_analyzer None None) ''um um a a a a a a a a a a a a a'')
       \<le> f_score (analyze_fillers (init_analyzer None None) ''um a a a a a a a a a a a a a a'')"
  using more_fillers_never_score_higher
    [of "''um a a a a a a a a a a a a a a''" "''um um a a a a a a a a a a a a a''"
      "init_analyzer None None"]
  unfolding analyze_fillers_example_3 analyze_fillers_example_4 default_filler_threshold
    find_words_example_3 find_words_example_4
  by simp

text \<open>
  C7 as stated fails: five words each, three fillers against four, both ratios far
  above the threshold of 5 percent, and both scores are 0.
\<close>

theorem more_fillers_not_strictly_lower:
  "length (find_words (py_lower ''um um um test test'')) =
     length (find_words (py_lower ''um um um um test''))
   \<and> filler_words_threshold (thresholds (init_analyzer None None))
       < f_ratio (analyze_fillers (init_analyzer None None) ''um um um test test'')
   \<and> filler_words_threshold (thresholds (init_analyzer None None))
       < f_ratio (analyze_fillers (init_analyzer None None) ''um um um um test'')
   \<and> f_count (analyze_fillers (init_analyzer None None) ''um um um test test'')
       < f_count (analyze_fillers (init_analyzer None None) ''um um um um test'')
   \<and> \<not> f_score (analyze_fillers (init_analyzer None None) ''um um um um test'')
       < f_score (analyze_fillers (init_analyzer None None) ''um um um test test'')"
  unfolding analyze_fillers_example_1 analyze_fillers_example_2 default_filler_threshold
    find_words_example_1 find_words_example_2
  by simp
lemma filter_without_multi_word:
  assumes "\<not> is_single_word e"
  shows "filter (\<lambda>w. w \<in> set fw \<and> w \<noteq> e) (find_words s) =
         filter (\<lambda>w. w \<in> set fw) (find_words s)"
proof (rule filter_cong)
  fix w
  assume "w \<in> set (find_words s)"
  then have "is_single_word w" by (rule find_words_tokens)
  with assms have "w \<noteq> e" by auto
  then show "(w \<in> set fw \<and> w \<noteq> e) = (w \<in> set fw)" by simp
qed simp

text \<open>
  C10.  The filler count is taken over the word tokens of the lower-cased text, each a
  non-empty run of word characters.  An entry of the filler-word list that is not such
  a token (\<open>you know\<close>, with its space) is never counted: whatever the text, the
  result is the one obtained without the entry, and the entry is never among the
  filler types found.
\<close>

theorem multi_word_filler_never_counted:
  assumes "\<not> is_single_word e"
  shows "analyze_fillers (a\<lparr>filler_words := removeAll e (filler_words a)\<rparr>) t
           = analyze_fillers a t
         \<and> e \<notin> f_types (analyze_fillers a t)
         \<and> f_types (analyze_fillers a t)
             \<subseteq> set (find_words (py_lower t)) \<inter> set (filler_words a)
         \<and> f_count (analyze_fillers a t)
             = int (length (filter (\<lambda>w. w \<in> set (filler_words a)) (find_words (py_lower t))))"
proof -
  have A: "analyze_fillers (a\<lparr>filler_words := removeAll e (filler_words a)\<rparr>) t
      = analyze_fillers a t"
    by (simp add: analyze_fillers_eq Let_def filter_without_multi_word [OF assms])
  have B: "f_types (analyze_fillers a t)
      \<subseteq> set (find_words (py_lower t)) \<inter> set (filler_words a)"
    by (auto simp: analyze_fillers_eq Let_def)
  have "e \<notin> set (find_words (py_lower t))"
    using assms find_words_tokens by blast
  with B have C: "e \<notin> f_types (analyze_fillers a t)" by blast
  have D: "f_count (analyze_fillers a t)
      = int (length (filter (\<lambda>w. w \<in> set (filler_words a)) (find_words (py_lower t))))"
    by (simp add: analyze_fillers_eq Let_def)
  from A B C D show ?thesis by simp
qed

lemma you_know_is_not_a_token: "\<not> is_single_word ''you know''"
  by (simp add: is_single_word_def is_word_char_def)

theorem multi_word_filler_never_counted_witness:
  "\<not> is_single_word ''you know''
   \<and> ''you know'' \<in> set (filler_words (init_analyzer None None))
   \<and> analyze_fillers
        ((init_analyzer None None)
           \<lparr>filler_words := removeAll ''you know'' (filler_words (init_analyzer None None))\<rparr>)
        ''You know, um, you know''
       = analyze_fillers (init_analyzer None None) ''You know, um, you know''
   \<and> ''you know''
       \<notin> f_types (analyze_fillers (init_analyzer None None) ''You know, um, you know'')"
  using multi_word_filler_never_counted
    [OF you_know_is_not_a_token, of "init_analyzer None None" "''You know, um, you know''"]
    you_know_is_not_a_token
  by (simp add: analyzer_defaults)

subsection \<open>Slicing windows from the buffer\<close>

lemma loop_body_cases:
  assumes "0 \<le> n_step" and "n_step \<le> n_chunk"
    and "loop_body n_chunk n_step arrived t m = (c, m1)"
  shows "(c = None \<and> audio_buffer m1 = audio_buffer m @ arrived)
       \<or> (c = Some (take (nat n_chunk) (audio_buffer m @ arrived))
          \<and> nat n_chunk \<le> length (audio_buffer m)
          \<and> audio_buffer m1 = drop (nat n_step) (audio_buffer m @ arrived))"
  using assms
  by (auto simp: loop_body_def Let_def py_slice_to_def py_slice_from_def split: if_splits)

lemma run_loop_stream:
  assumes "0 \<le> n_step" and "n_step \<le> n_chunk"
  shows "run_loop n_chunk n_step es m = (cs, m') \<Longrightarrow>
         concat (map (take (nat n_step)) cs) @ audio_buffer m' = audio_buffer m @ delivered es
         \<and> (\<forall>k<length cs.
               cs ! k = take (nat n_chunk) (drop (k * nat n_step) (audio_buffer m @ delivered es))
               \<and> length (cs ! k) = nat n_chunk)
         \<and> audio_buffer m' = drop (length cs * nat n_step) (audio_buffer m @ delivered es)"
proof (induction es arbitrary: m cs m')
  case Nil
  then show ?case by simp
next
  case (Cons ev es)
  show ?case
  proof (cases ev)
    case (Callback d)
    with Cons.prems have "run_loop n_chunk n_step es (audio_callback m d) = (cs, m')" by simp
    note IH = Cons.IH [OF this]
    have eq: "audio_buffer (audio_callback m d) @ delivered es
        = audio_buffer m @ delivered (ev # es)"
      using Callback by (simp add: audio_callback_def)
    from IH [unfolded eq] show ?thesis .
  next
    case (Pass arrived t)
    obtain c m1 where lb: "loop_body n_chunk n_step arrived t m = (c, m1)"
      by (cases "loop_body n_chunk n_step arrived t m")
    obtain cs1 m2 where rl: "run_loop n_chunk n_step es m1 = (cs1, m2)"
      by (cases "run_loop n_chunk n_step es m1")
    from Cons.prems Pass lb rl
    have res: "cs = (case c of None \<Rightarrow> cs1 | Some ch \<Rightarrow> ch # cs1)" and m2: "m' = m2"
      by simp_all
    note IH = Cons.IH [OF rl]
    define buf where "buf = audio_buffer m @ arrived"
    define S where "S = delivered es"
    from loop_body_cases [OF assms lb]
    consider (wait) "c = None" "audio_buffer m1 = buf"
      | (slice) "c = Some (take (nat n_chunk) buf)" "nat n_chunk \<le> length (audio_buffer m)"
          "audio_buffer m1 = drop (nat n_step) buf"
      by (auto simp: buf_def)
    then show ?thesis
    proof cases
      case wait
      have eq: "audio_buffer m1 @ delivered es = audio_buffer m @ delivered (ev # es)"
        using wait(2) Pass by (simp add: buf_def)
      have "cs1 = cs" and "m2 = m'" using res wait(1) m2 by simp_all
      from IH [unfolded eq this] show ?thesis .
    next
      case slice
      have len: "nat n_chunk \<le> length buf" using slice(2) by (simp add: buf_def)
      have sl: "nat n_step \<le> nat n_chunk" using assms by simp
      have step_len: "nat n_step \<le> length buf" using len sl by simp
      have cs: "cs = take (nat n_chunk) buf # cs1" using res slice(1) by simp
      have dr: "drop (nat n_step) buf @ S = drop (nat n_step) (buf @ S)"
        using step_len by simp
      have tk: "take (nat n_chunk) (buf @ S) = take (nat n_chunk) buf"
        using len by simp
      have whole: "audio_buffer m @ delivered (ev # es) = buf @ S"
        using Pass by (simp add: buf_def S_def)
      have eq1: "audio_buffer m1 @ delivered es = drop (nat n_step) (buf @ S)"
        using slice(3) dr by (simp only: S_def)
      note IH1 = IH [unfolded eq1]
      have IH': "concat (map (take (nat n_step)) cs1) @ audio_buffer m2
                   = drop (nat n_step) (buf @ S)"
        using IH1 by blast
      have IHk: "cs1 ! k = take (nat n_chunk) (drop (k * nat n_step) (drop (nat n_step) (buf @ S)))
                   \<and> length (cs1 ! k) = nat n_chunk" if "k < length cs1" for k
        using IH1 that by blast
      have IHb: "audio_buffer m2 = drop (length cs1 * nat n_step) (drop (nat n_step) (buf @ S))"
        using IH1 by blast
      have A: "concat (map (take (nat n_step)) cs) @ audio_buffer m' = buf @ S"
      proof -
        have "take (nat n_step) (take (nat n_chunk) buf) = take (nat n_step) (buf @ S)"
          using sl step_len by (simp add: min_absorb1)
        then show ?thesis using IH' cs m2 by (simp del: take_append drop_append)
      qed
      have B: "cs ! k = take (nat n_chunk) (drop (k * nat n_step) (buf @ S))
               \<and> length (cs ! k) = nat n_chunk" if "k < length cs" for k
      proof (cases k)
        case 0
        then show ?thesis using cs tk len by simp
      next
        case (Suc j)
        then have "j < length cs1" using that cs by simp
        from IHk [OF this]
        have e1: "cs1 ! j = take (nat n_chunk) (drop (j * nat n_step) (drop (nat n_step) (buf @ S)))"
          and e2: "length (cs1 ! j) = nat n_chunk" by blast+
        have e3: "drop (j * nat n_step) (drop (nat n_step) (buf @ S))
            = drop (k * nat n_step) (buf @ S)"
          using Suc by (simp add: add.commute del: drop_append)
        have e4: "cs ! k = cs1 ! j" using Suc cs by simp
        show ?thesis using e1 e2 unfolding e3 e4 by blast
      qed
      have C: "audio_buffer m' = drop (length cs * nat n_step) (buf @ S)"
        using IHb cs m2 by (simp add: add.commute del: drop_append)
      from A B C show ?thesis unfolding whole by blast
    qed
  qed
qed

lemma drop_take_tail:
  assumes "s \<le> w"
  shows "drop s (take w xs) @ drop w xs = drop s xs"
proof (cases "w \<le> length xs")
  case True
  have "drop s (take w xs @ drop w xs) = drop s (take w xs) @ drop (s - w) (drop w xs)"
    using True by (simp only: drop_append length_take min_absorb2)
  moreover have "s - w = 0" using assms by simp
  ultimately show ?thesis by simp
next
  case False
  then show ?thesis by simp
qed

lemma consecutive_windows_overlap:
  assumes "ov \<le> w"
    and "a = take w (drop (k * (w - ov)) S)" and "length a = w"
    and "b = take w (drop (Suc k * (w - ov)) S)"
  shows "drop (w - ov) a = take ov b"
proof -
  have "drop (w - ov) a = take (w - (w - ov)) (drop (w - ov) (drop (k * (w - ov)) S))"
    unfolding assms(2) by (simp only: drop_take)
  also have "w - (w - ov) = ov" using assms(1) by simp
  also have "drop (w - ov) (drop (k * (w - ov)) S) = drop (Suc k * (w - ov)) S"
    by (simp add: add.commute)
  finally have "drop (w - ov) a = take ov (drop (Suc k * (w - ov)) S)" .
  moreover have "take ov b = take ov (drop (Suc k * (w - ov)) S)"
    unfolding assms(4) using assms(1) by (simp add: min_absorb1)
  ultimately show ?thesis by simp
qed

text \<open>
  C1 (amended).  Let the overlap be at least 0 and less than the window length, and
  let the loop run through any schedule of callbacks and passes.  Every pass that finds
  a full window returns the first \<open>window_length\<close> buffered samples and retains every
  buffered sample from index \<open>step_length\<close> on: the last \<open>overlap_length\<close> samples of the
  returned window, followed by all samples buffered beyond the window (not only the
  overlap).  Window number \<open>k\<close> is the stretch of \<open>window_length\<close> samples that starts
  \<open>k * step_length\<close> samples into the stream of delivered samples; so the last
  \<open>overlap_length\<close> samples of a window are the first \<open>overlap_length\<close> samples of the
  next, and the first \<open>step_length\<close> samples of all windows, followed by the buffer
  that remains, are the delivered stream: no sample is skipped or duplicated.
\<close>

theorem windows_tile_the_stream:
  assumes "0 \<le> overlap_samples cfg"
    and "overlap_samples cfg < analysis_chunk_samples cfg"
    and "process_audio_buffer cfg es m = (cs, m')"
  shows "(\<forall>k<length cs.
            cs ! k = take (nat (analysis_chunk_samples cfg))
                       (drop (k * nat (step_samples cfg)) (audio_buffer m @ delivered es))
            \<and> length (cs ! k) = nat (analysis_chunk_samples cfg))
         \<and> (\<forall>k. Suc k < length cs \<longrightarrow>
               drop (nat (step_samples cfg)) (cs ! k)
                 = take (nat (overlap_samples cfg)) (cs ! Suc k))
         \<and> concat (map (take (nat (step_samples cfg))) cs) @ audio_buffer m'
             = audio_buffer m @ delivered es
         \<and> audio_buffer m'
             = drop (length cs * nat (step_samples cfg)) (audio_buffer m @ delivered es)
         \<and> (\<forall>arrived t m0.
               analysis_chunk_samples cfg \<le> int (length (audio_buffer m0)) \<longrightarrow>
               fst (loop_body (analysis_chunk_samples cfg) (step_samples cfg) arrived t m0)
                 = Some (take (nat (analysis_chunk_samples cfg)) (audio_buffer m0 @ arrived))
               \<and> audio_buffer
                   (snd (loop_body (analysis_chunk_samples cfg) (step_samples cfg) arrived t m0))
                 = drop (nat (step_samples cfg))
                     (take (nat (analysis_chunk_samples cfg)) (audio_buffer m0 @ arrived))
                   @ drop (nat (analysis_chunk_samples cfg)) (audio_buffer m0 @ arrived))"
proof -
  define w where "w = nat (analysis_chunk_samples cfg)"
  define ov where "ov = nat (overlap_samples cfg)"
  define st where "st = nat (step_samples cfg)"
  define S where "S = audio_buffer m @ delivered es"
  have st: "st = w - ov" using assms(1,2) by (simp add: st_def w_def ov_def step_samples_def nat_diff_distrib)
  have ovw: "ov \<le> w" using assms(1,2) by (simp add: w_def ov_def)
  have s0: "0 \<le> step_samples cfg" and s1: "step_samples cfg \<le> analysis_chunk_samples cfg"
    using assms(1,2) by (simp_all add: step_samples_def)
  have run: "run_loop (analysis_chunk_samples cfg) (step_samples cfg) es (m\<lparr>last_emit_time := 0\<rparr>)
      = (cs, m')"
    using assms(3) by (simp add: process_audio_buffer_def)
  have bm: "audio_buffer (m\<lparr>last_emit_time := 0\<rparr>) = audio_buffer m" by simp
  note R = run_loop_stream [OF s0 s1 run, unfolded bm, folded w_def st_def S_def]
  have A: "concat (map (take st) cs) @ audio_buffer m' = S"
    using R by blast
  have B: "cs ! k = take w (drop (k * st) S) \<and> length (cs ! k) = w" if "k < length cs" for k
    using R that by blast
  have C: "audio_buffer m' = drop (length cs * st) S"
    using R by blast
  have D: "drop st (cs ! k) = take ov (cs ! Suc k)" if "Suc k < length cs" for k
  proof -
    have k: "k < length cs" using that by simp
    from B [OF k] have a1: "cs ! k = take w (drop (k * (w - ov)) S)"
      and a2: "length (cs ! k) = w" unfolding st by blast+
    from B [OF that] have b1: "cs ! Suc k = take w (drop (Suc k * (w - ov)) S)"
      unfolding st by blast
    show ?thesis
      unfolding st by (rule consecutive_windows_overlap [OF ovw a1 a2 b1])
  qed
  have E: "fst (loop_body (analysis_chunk_samples cfg) (step_samples cfg) arrived t m0)
             = Some (take w (audio_buffer m0 @ arrived))
           \<and> audio_buffer
               (snd (loop_body (analysis_chunk_samples cfg) (step_samples cfg) arrived t m0))
             = drop st (take w (audio_buffer m0 @ arrived)) @ drop w (audio_buffer m0 @ arrived)"
    if "analysis_chunk_samples cfg \<le> int (length (audio_buffer m0))" for arrived t m0
  proof -
    have "st \<le> w" using st by simp
    then have "drop st (take w (audio_buffer m0 @ arrived)) @ drop w (audio_buffer m0 @ arrived)
        = drop st (audio_buffer m0 @ arrived)"
      by (rule drop_take_tail)
    then show ?thesis
      using that s0 assms(1,2)
      by (simp add: loop_body_def Let_def py_slice_to_def py_slice_from_def w_def st_def
          del: take_append drop_append)
  qed
  from A B C D E show ?thesis
    unfolding w_def st_def ov_def S_def by blast
qed

lemma example_settings_samples:
  "analysis_chunk_samples example_settings = 4"
  "overlap_samples example_settings = 1"
  "step_samples example_settings = 3"
  by (simp_all add: step_samples_def analysis_chunk_samples_def overlap_samples_def
      example_settings_def fl_eval)

lemma fl_tenth: "fl (1 / 10) = 3602879701896397 / 36028797018963968"
  by (simp add: fl_eval)

lemma fl_small_ints: "fl 1 = 1" "fl 2 = 2" "fl 3 = 3" "fl 4 = 4"
  by (simp_all add: fl_eval)

lemma example_run:
  "process_audio_buffer example_settings example_schedule cleared =
     ([[1, 2, 3, 4], [4, 5, 6, 7], [7, 8, 9, 10]],
      \<lparr>audio_buffer = [10], last_emit_time = 4,
       emitted = [[1, 2, 3, 4], [4, 5, 6, 7], [7, 8, 9, 10]]\<rparr>)"
  by (simp add: process_audio_buffer_def example_settings_samples example_schedule_def
      cleared_def loop_body_def audio_callback_def py_slice_to_def py_slice_from_def
      fl_tenth fl_small_ints Let_def)

theorem windows_tile_the_stream_witness:
  "0 \<le> overlap_samples example_settings
   \<and> overlap_samples example_settings < analysis_chunk_samples example_settings
   \<and> process_audio_buffer example_settings example_schedule cleared =
       ([[1, 2, 3, 4], [4, 5, 6, 7], [7, 8, 9, 10]],
        \<lparr>audio_buffer = [10], last_emit_time = 4,
         emitted = [[1, 2, 3, 4], [4, 5, 6, 7], [7, 8, 9, 10]]\<rparr>)
   \<and> delivered example_schedule = [1, 2, 3, 4, 5, 6, 7, 8, 9, 10]
   \<and> drop 3 [1, 2, 3, 4 :: sample] = take 1 [4, 5, 6, 7]
   \<and> drop 3 [4, 5, 6, 7 :: sample] = take 1 [7, 8, 9, 10]
   \<and> concat (map (take 3) [[1, 2, 3, 4], [4, 5, 6, 7], [7, 8, 9, 10 :: sample]]) @ [10]
       = [1, 2, 3, 4, 5, 6, 7, 8, 9, 10]"
  using windows_tile_the_stream [of example_settings example_schedule cleared
      "[[1, 2, 3, 4], [4, 5, 6, 7], [7, 8, 9, 10]]"
      "\<lparr>audio_buffer = [10], last_emit_time = 4,
        emitted = [[1, 2, 3, 4], [4, 5, 6, 7], [7, 8, 9, 10]]\<rparr>"]
    example_run
  by (simp add: example_settings_samples example_schedule_def)

text \<open>
  C1 as stated fails: with six samples buffered, a window of 4 and an overlap of 1, the
  slice retains three samples, not exactly the trailing one of the window.
\<close>

theorem retained_is_more_than_the_overlap:
  "fst (loop_body (analysis_chunk_samples example_settings) (step_samples example_settings)
          [] 1 (cleared\<lparr>audio_buffer := [1, 2, 3, 4, 5, 6]\<rparr>))
     = Some [1, 2, 3, 4]
   \<and> audio_buffer
        (snd (loop_body (analysis_chunk_samples example_settings)
               (step_samples example_settings) [] 1
               (cleared\<lparr>audio_buffer := [1, 2, 3, 4, 5, 6]\<rparr>)))
     = [4, 5, 6]
   \<and> audio_buffer
        (snd (loop_body (analysis_chunk_samples example_settings)
               (step_samples example_settings) [] 1
               (cleared\<lparr>audio_buffer := [1, 2, 3, 4, 5, 6]\<rparr>)))
     \<noteq> drop (nat (step_samples example_settings)) [1, 2, 3, 4]"
  by (simp add: example_settings_samples cleared_def loop_body_def py_slice_to_def
      py_slice_from_def fl_tenth fl_small_ints Let_def)

subsection \<open>The rate limit\<close>

text \<open>
  C9.  In a pass that finds a full window, the chunk is sliced and the buffer is cut
  to \<open>audio_buffer[step_samples:]\<close> whether or not the chunk is emitted; for a step
  between 0 and the window length that is the overlap tail of the chunk followed by
  the samples beyond the window.  When the elapsed time the loop computes,
  \<open>current_time - last_emit_time\<close>, is below its constant 0.1, the chunk is not emitted:
  the emitted chunks and \<open>last_emit_time\<close> stay as they were, and nothing of the chunk
  but that tail remains in the state.  Otherwise the chunk is emitted.
\<close>

theorem sliced_chunk_leaves_buffer_even_when_dropped:
  assumes "n_chunk \<le> int (length (audio_buffer m))"
  shows "fst (loop_body n_chunk n_step arrived t m)
           = Some (py_slice_to (audio_buffer m @ arrived) n_chunk)
         \<and> audio_buffer (snd (loop_body n_chunk n_step arrived t m))
             = py_slice_from (audio_buffer m @ arrived) n_step
         \<and> (0 \<le> n_step \<and> n_step \<le> n_chunk \<longrightarrow>
               audio_buffer (snd (loop_body n_chunk n_step arrived t m))
                 = drop (nat n_step) (py_slice_to (audio_buffer m @ arrived) n_chunk)
                   @ drop (nat n_chunk) (audio_buffer m @ arrived))
         \<and> (fl (t - last_emit_time m) < fl (1 / 10) \<longrightarrow>
               emitted (snd (loop_body n_chunk n_step arrived t m)) = emitted m
               \<and> last_emit_time (snd (loop_body n_chunk n_step arrived t m)) = last_emit_time m
               \<and> snd (loop_body n_chunk n_step arrived t m)
                   = m\<lparr>audio_buffer := py_slice_from (audio_buffer m @ arrived) n_step\<rparr>)
         \<and> (fl (1 / 10) \<le> fl (t - last_emit_time m) \<longrightarrow>
               emitted (snd (loop_body n_chunk n_step arrived t m))
                 = emitted m @ [py_slice_to (audio_buffer m @ arrived) n_chunk]
               \<and> last_emit_time (snd (loop_body n_chunk n_step arrived t m)) = t)"
proof -
  define buf where "buf = audio_buffer m @ arrived"
  have tail: "py_slice_from buf n_step = drop (nat n_step) (py_slice_to buf n_chunk)
      @ drop (nat n_chunk) buf" if "0 \<le> n_step" "n_step \<le> n_chunk"
  proof -
    have le: "nat n_step \<le> nat n_chunk" using that by simp
    have "drop (nat n_step) (take (nat n_chunk) buf) @ drop (nat n_chunk) buf
        = drop (nat n_step) buf"
      using le by (rule drop_take_tail)
    then show ?thesis using that by (simp add: py_slice_to_def py_slice_from_def)
  qed
  show ?thesis
    using assms tail
    unfolding buf_def [symmetric]
    by (simp add: loop_body_def Let_def buf_def [symmetric])
qed

theorem sliced_chunk_leaves_buffer_even_when_dropped_witness:
  "(4::int) \<le> int (length (audio_buffer (cleared\<lparr>audio_buffer := [1, 2, 3, 4, 5, 6], last_emit_time := 1\<rparr>)))
   \<and> fl (21 / 20 - 1) < fl (1 / 10)
   \<and> loop_body 4 3 [] (21 / 20) (cleared\<lparr>audio_buffer := [1, 2, 3, 4, 5, 6], last_emit_time := 1\<rparr>)
       = (Some [1, 2, 3, 4], cleared\<lparr>audio_buffer := [4, 5, 6], last_emit_time := 1\<rparr>)
   \<and> emitted (snd (loop_body 4 3 [] (21 / 20)
         (cleared\<lparr>audio_buffer := [1, 2, 3, 4, 5, 6], last_emit_time := 1\<rparr>))) = []"
  using sliced_chunk_leaves_buffer_even_when_dropped
    [of 4 "cleared\<lparr>audio_buffer := [1, 2, 3, 4, 5, 6], last_emit_time := 1\<rparr>" 3 "[]" "21 / 20"]
  by (simp add: cleared_def loop_body_def py_slice_to_def py_slice_from_def fl_tenth Let_def
      fl_eval)

subsection \<open>Speaking rate\<close>













subsection \<open>Prosody\<close>

lemma analyze_tone_unvoiced:
  "filter (\<lambda>p. 0 < p) pv = [] \<Longrightarrow>
   analyze_tone np a (Some pv)
     = \<lparr>pitch_mean = 0, pitch_std = 0, pitch_range = 0, t_score = 0\<rparr>"
  by (simp add: analyze_tone_def)

lemma analyze_tone_voiced:
  "filter (\<lambda>p. 0 < p) pv \<noteq> [] \<Longrightarrow>
   analyze_tone np a (Some pv) =
     \<lparr>pitch_mean = mean64 np (filter (\<lambda>p. 0 < p) pv),
      pitch_std = std64 np (filter (\<lambda>p. 0 < p) pv),
      pitch_range =
        fsub (Max (set (filter (\<lambda>p. 0 < p) pv))) (Min (set (filter (\<lambda>p. 0 < p) pv))),
      t_score =
        (if std64 np (filter (\<lambda>p. 0 < p) pv) < fst (pitch_variance_good (thresholds a))
         then 50
         else if std64 np (filter (\<lambda>p. 0 < p) pv) > snd (pitch_variance_good (thresholds a))
         then 70 else 100)\<rparr>"
  by (simp add: analyze_tone_def Let_def)

text \<open>
  C5.  The prosody extractor keeps only the pitch frames above 0: the result is the
  one for the voiced frames alone.  Without such a frame, or when the pitch library
  raised, all pitch metrics and the score are 0.  Otherwise the reported mean and
  standard deviation are what numpy computes on the voiced frames, the range is their
  maximum minus their minimum, and with \<open>sd\<close> the reported standard deviation and
  \<open>[lo, hi]\<close> the good range (\<open>lo \<le> hi\<close>) the score is 100 for \<open>lo \<le> sd \<le> hi\<close>, 50 for
  \<open>sd < lo\<close> and 70 for \<open>sd > hi\<close>.
\<close>

theorem tone_score_from_voiced_pitch:
  "analyze_tone np a (Some pv) = analyze_tone np a (Some (filter (\<lambda>p. 0 < p) pv))
   \<and> analyze_tone np a None
       = \<lparr>pitch_mean = 0, pitch_std = 0, pitch_range = 0, t_score = 0\<rparr>
   \<and> (filter (\<lambda>p. 0 < p) pv = [] \<longrightarrow>
        analyze_tone np a (Some pv)
          = \<lparr>pitch_mean = 0, pitch_std = 0, pitch_range = 0, t_score = 0\<rparr>)
   \<and> (filter (\<lambda>p. 0 < p) pv \<noteq> [] \<longrightarrow>
        pitch_mean (analyze_tone np a (Some pv)) = mean64 np (filter (\<lambda>p. 0 < p) pv)
        \<and> pitch_std (analyze_tone np a (Some pv)) = std64 np (filter (\<lambda>p. 0 < p) pv)
        \<and> pitch_range (analyze_tone np a (Some pv))
            = fsub (Max (set (filter (\<lambda>p. 0 < p) pv))) (Min (set (filter (\<lambda>p. 0 < p) pv)))
        \<and> (fst (pitch_variance_good (thresholds a)) \<le> pitch_std (analyze_tone np a (Some pv))
            \<and> pitch_std (analyze_tone np a (Some pv)) \<le> snd (pitch_variance_good (thresholds a))
            \<longrightarrow> t_score (analyze_tone np a (Some pv)) = 100)
        \<and> (pitch_std (analyze_tone np a (Some pv)) < fst (pitch_variance_good (thresholds a))
            \<longrightarrow> t_score (analyze_tone np a (Some pv)) = 50)
        \<and> (fst (pitch_variance_good (thresholds a)) \<le> snd (pitch_variance_good (thresholds a))
            \<and> snd (pitch_variance_good (thresholds a)) < pitch_std (analyze_tone np a (Some pv))
            \<longrightarrow> t_score (analyze_tone np a (Some pv)) = 70))"
proof -
  define v where "v = filter (\<lambda>p. 0 < p) pv"
  define lo where "lo = fst (pitch_variance_good (thresholds a))"
  define hi where "hi = snd (pitch_variance_good (thresholds a))"
  have vv: "filter (\<lambda>p. 0 < p) v = v" by (simp add: v_def)
  have A: "analyze_tone np a (Some pv) = analyze_tone np a (Some v)"
  proof (cases "v = []")
    case True
    then show ?thesis
      using analyze_tone_unvoiced [of pv np a] analyze_tone_unvoiced [of v np a] vv
      by (simp add: v_def)
  next
    case False
    then show ?thesis
      using analyze_tone_voiced [of pv np a] analyze_tone_voiced [of v np a] vv
      by (simp add: v_def)
  qed
  have N: "analyze_tone np a None
      = \<lparr>pitch_mean = 0, pitch_std = 0, pitch_range = 0, t_score = 0\<rparr>"
    by (simp add: analyze_tone_def)
  have B: "v = [] \<longrightarrow> analyze_tone np a (Some pv)
      = \<lparr>pitch_mean = 0, pitch_std = 0, pitch_range = 0, t_score = 0\<rparr>"
    using analyze_tone_unvoiced [of pv np a] by (simp add: v_def)
  have C: "v \<noteq> [] \<longrightarrow>
        pitch_mean (analyze_tone np a (Some pv)) = mean64 np v
        \<and> pitch_std (analyze_tone np a (Some pv)) = std64 np v
        \<and> pitch_range (analyze_tone np a (Some pv)) = fsub (Max (set v)) (Min (set v))
        \<and> (lo \<le> pitch_std (analyze_tone np a (Some pv))
            \<and> pitch_std (analyze_tone np a (Some pv)) \<le> hi
            \<longrightarrow> t_score (analyze_tone np a (Some pv)) = 100)
        \<and> (pitch_std (analyze_tone np a (Some pv)) < lo
            \<longrightarrow> t_score (analyze_tone np a (Some pv)) = 50)
        \<and> (lo \<le> hi \<and> hi < pitch_std (analyze_tone np a (Some pv))
            \<longrightarrow> t_score (analyze_tone np a (Some pv)) = 70)"
  proof
    assume "v \<noteq> []"
    then have r: "analyze_tone np a (Some pv) =
       \<lparr>pitch_mean = mean64 np v, pitch_std = std64 np v,
        pitch_range = fsub (Max (set v)) (Min (set v)),
        t_score = (if std64 np v < lo then 50 else if std64 np v > hi then 70 else 100)\<rparr>"
      using analyze_tone_voiced [of pv np a] by (simp add: v_def lo_def hi_def)
    show "pitch_mean (analyze_tone np a (Some pv)) = mean64 np v
        \<and> pitch_std (analyze_tone np a (Some pv)) = std64 np v
        \<and> pitch_range (analyze_tone np a (Some pv)) = fsub (Max (set v)) (Min (set v))
        \<and> (lo \<le> pitch_std (analyze_tone np a (Some pv))
            \<and> pitch_std (analyze_tone np a (Some pv)) \<le> hi
            \<longrightarrow> t_score (analyze_tone np a (Some pv)) = 100)
        \<and> (pitch_std (analyze_tone np a (Some pv)) < lo
            \<longrightarrow> t_score (analyze_tone np a (Some pv)) = 50)
        \<and> (lo \<le> hi \<and> hi < pitch_std (analyze_tone np a (Some pv))
            \<longrightarrow> t_score (analyze_tone np a (Some pv)) = 70)"
      unfolding r by auto
  qed
  from A N B C show ?thesis unfolding v_def lo_def hi_def by blast
qed

lemma default_pitch_range:
  "pitch_variance_good (thresholds (init_analyzer None None)) = (50, 150)"
  by (simp add: analyzer_defaults)

lemma tone_examples:
  "analyze_tone numpy_table (init_analyzer None None) (Some [0, 0])
     = \<lparr>pitch_mean = 0, pitch_std = 0, pitch_range = 0, t_score = 0\<rparr>"
  "analyze_tone numpy_table (init_analyzer None None) (Some [0, 100, 0, 200])
     = \<lparr>pitch_mean = 150, pitch_std = 50, pitch_range = 100, t_score = 100\<rparr>"
  "analyze_tone numpy_table (init_analyzer None None) (Some [100, 0, 100])
     = \<lparr>pitch_mean = 100, pitch_std = 0, pitch_range = 0, t_score = 50\<rparr>"
  "analyze_tone numpy_table (init_analyzer None None) (Some [100, 500, 0])
     = \<lparr>pitch_mean = 300, pitch_std = 200, pitch_range = 400, t_score = 70\<rparr>"
  by (simp_all add: analyze_tone_def numpy_table_def default_pitch_range fl_eval)

theorem tone_score_from_voiced_pitch_witness:
  "filter (\<lambda>p. 0 < p) [0, 0 :: rat] = []
   \<and> analyze_tone numpy_table (init_analyzer None None) (Some [0, 0])
       = \<lparr>pitch_mean = 0, pitch_std = 0, pitch_range = 0, t_score = 0\<rparr>
   \<and> filter (\<lambda>p. 0 < p) [0, 100, 0, 200 :: rat] = [100, 200]
   \<and> analyze_tone numpy_table (init_analyzer None None) (Some [0, 100, 0, 200])
       = \<lparr>pitch_mean = 150, pitch_std = 50, pitch_range = 100, t_score = 100\<rparr>
   \<and> analyze_tone numpy_table (init_analyzer None None) (Some [100, 0, 100])
       = \<lparr>pitch_mean = 100, pitch_std = 0, pitch_range = 0, t_score = 50\<rparr>
   \<and> analyze_tone numpy_table (init_analyzer None None) (Some [100, 500, 0])
       = \<lparr>pitch_mean = 300, pitch_std = 200, pitch_range = 400, t_score = 70\<rparr>"
  using tone_score_from_voiced_pitch
      [of numpy_table "init_analyzer None None" "[0, 0]", THEN conjunct2]
    tone_score_from_voiced_pitch
      [of numpy_table "init_analyzer None None" "[0, 100, 0, 200]", THEN conjunct2]
    tone_score_from_voiced_pitch
      [of numpy_table "init_analyzer None None" "[100, 0, 100]", THEN conjunct2]
    tone_score_from_voiced_pitch
      [of numpy_table "init_analyzer None None" "[100, 500, 0]", THEN conjunct2]
  by (simp add: tone_examples)

subsection \<open>The temporary file of the transcription\<close>

lemma temp_file_deleted_when_engine_returns:
  assumes "whisper_cli_path a \<notin> {None, Some []}" and "whisper_model_path a \<notin> {None, Some []}"
    and "tmp_created env" and "wav_written env" and "0 < rate_hz"
    and "run_whisper env = Completed returncode out err"
  shows "snd (transcribe_audio a env files audio_data rate_hz) = files - {tmp_name env}"
  using assms by (auto simp: transcribe_audio_def Let_def)

lemma temp_file_left_on_timeout:
  assumes "whisper_cli_path a \<notin> {None, Some []}" and "whisper_model_path a \<notin> {None, Some []}"
    and "tmp_created env" and "wav_written env" and "0 < rate_hz"
    and "run_whisper env = Timeout_expired"
  shows "transcribe_audio a env files audio_data rate_hz = ([], insert (tmp_name env) files)"
  using assms by (auto simp: transcribe_audio_def Let_def)

text \<open>
  C3 fails on the code.  \<open>os.unlink\<close> stands after \<open>subprocess.run\<close> inside the
  \<open>try\<close> block; when the engine exceeds the 30 seconds, \<open>TimeoutExpired\<close> skips it and
  the handler returns the empty text: the temporary file is still there.
\<close>

theorem temp_file_survives_timeout:
  "transcribe_audio configured engine_times_out {} [0, 0, 0] 16000
     = ([], {''/tmp/tmpk3v9x2.wav''})"
  by (simp add: transcribe_audio_def configured_def engine_times_out_def init_analyzer_def)

subsection \<open>Silence\<close>

lemma silent_window_has_no_speech:
  assumes "\<forall>x\<in>set audio_data. x = 0" and "0 < threshold"
  shows "\<not> has_speech (map (\<lambda>x. real_of_int (sint x) / 32767) audio_data) threshold"
proof -
  have "sum_list (map (\<lambda>x. (real_of_int (sint x) / 32767)\<^sup>2) audio_data) = 0"
    using assms(1) by (induction audio_data) auto
  then have "np_mean (map (\<lambda>x. x\<^sup>2) (map (\<lambda>x. real_of_int (sint x) / 32767) audio_data)) = 0"
    by (simp add: np_mean_def comp_def)
  then show ?thesis using assms(2) by (simp add: has_speech_def)
qed

lemma speech_threshold_positive: "(0::real) < of_rat (fl (1 / 100))"
  by (simp add: fl_eval)

text \<open>
  C4.  For a window whose samples are all 0 (of any length, at a sample rate other
  than 0) the energy gate \<open>_has_speech\<close> is false, and \<open>analyze_audio\<close> returns the
  initial result: overall score 0, all scores 0, no metrics, no alerts, empty
  transcription.  No stage is run, neither transcription nor an extractor, whatever
  the libraries and the engine would have returned; the file system is untouched.
\<close>

theorem silent_window_stops_at_the_gate:
  assumes "\<forall>x\<in>set audio_data. x = 0" and "rate_hz \<noteq> 0"
  shows "\<not> has_speech (map (\<lambda>x. real_of_int (sint x) / 32767) audio_data) (of_rat (fl (1 / 100)))
         \<and> analyze_audio a ext files audio_data rate_hz
             = (\<lparr>duration = fl (of_nat (length audio_data) / of_int rate_hz),
                 transcription = [], metrics = no_metrics, scores = zero_scores,
                 alerts = [], error = None\<rparr>,
                [], files)
         \<and> s_overall (scores (fst (analyze_audio a ext files audio_data rate_hz))) = 0
         \<and> alerts (fst (analyze_audio a ext files audio_data rate_hz)) = []
         \<and> transcription (fst (analyze_audio a ext files audio_data rate_hz)) = []
         \<and> fst (snd (analyze_audio a ext files audio_data rate_hz)) = []
         \<and> analyze_audio a ext files audio_data rate_hz
             = analyze_audio a ext' files audio_data rate_hz"
proof -
  have gate: "\<not> has_speech (map (\<lambda>x. real_of_int (sint x) / 32767) audio_data)
      (of_rat (fl (1 / 100)))"
    using assms(1) speech_threshold_positive by (rule silent_window_has_no_speech)
  have r: "analyze_audio a e files audio_data rate_hz
      = (\<lparr>duration = fl (of_nat (length audio_data) / of_int rate_hz),
          transcription = [], metrics = no_metrics, scores = zero_scores,
          alerts = [], error = None\<rparr>,
         [], files)" for e
    using gate assms(2) by (simp add: analyze_audio_def Let_def)
  show ?thesis using gate by (simp add: r zero_scores_def)
qed

theorem silent_window_stops_at_the_gate_witness:
  "analyze_audio configured example_externals {} [0, 0, 0] 16000
     = (\<lparr>duration = fl (3 / 16000), transcription = [], metrics = no_metrics,
         scores = zero_scores, alerts = [], error = None\<rparr>,
        [], {})"
  using silent_window_stops_at_the_gate
    [of "[0, 0, 0]" 16000 configured example_externals "{}" example_externals]
  by simp

subsection \<open>Settings and weights\<close>

text \<open>
  C8 (amended).  The analyzer has no configurable weights.  \<open>update_settings\<close> reads
  only the thresholds and the filler words: a \<open>weights\<close> entry, whatever its sum, is
  ignored, and the only log record of the call is the information that the settings
  were updated, never a warning.  The aggregator always uses the constants 0.25, 0.25,
  0.2 and 0.3, which as doubles sum to exactly 1, so it never computes an overall score
  with weights that are not normalised.
\<close>

theorem weights_are_fixed_and_settings_ignore_them:
  "fst (update_settings a (s\<lparr>weights_entry := w\<rparr>)) = fst (update_settings a s)
   \<and> snd (update_settings a s) = [Log_info ''Speech analyzer settings updated'']
   \<and> calculate_scores (fst (update_settings a s)) m = calculate_scores a m
   \<and> s_overall (calculate_scores (fst (update_settings a s)) m)
       = py_int (weighted_sum (s_tone (calculate_scores a m)) (s_clarity (calculate_scores a m))
           (s_volume (calculate_scores a m)) (s_fluency (calculate_scores a m)))
   \<and> fl (1 / 4) + fl (1 / 4) + fl (1 / 5) + fl (3 / 10) = 1"
proof -
  have "fl (1 / 4) + fl (1 / 4) + fl (1 / 5) + fl (3 / 10) = 1"
    by (simp add: fl_eval)
  then show ?thesis
    by (simp add: update_settings_def calculate_scores_def Let_def split: option.splits)
qed

text \<open>
  C8 as stated fails: weights of 0.5 each sum to 2, and the call neither warns nor
  changes anything.
\<close>

theorem bad_weights_raise_no_warning:
  "(1 / 2 + 1 / 2 + 1 / 2 + 1 / 2 :: rat) \<noteq> 1
   \<and> (\<forall>msg. Log_warning msg
         \<notin> set (snd (update_settings configured
               \<lparr>thresholds_entry = None, filler_words_entry = None,
                weights_entry = Some (1 / 2, 1 / 2, 1 / 2, 1 / 2)\<rparr>)))
   \<and> fst (update_settings configured
            \<lparr>thresholds_entry = None, filler_words_entry = None,
             weights_entry = Some (1 / 2, 1 / 2, 1 / 2, 1 / 2)\<rparr>)
       = configured"
  by (simp add: update_settings_def)

end
